theory Spec2Isabelle
  imports Complex_Main
begin

section \<open>Data model\<close>

text \<open>
  A tensor is its shape together with its elements in row-major order. Parameter values
  are only ever copied, compared by shape, or combined element-wise, so the elements are
  kept as real numbers.
\<close>

record tensor =
  shape :: "nat list"
  vals :: "real list"

text \<open>
  The element count of a tensor is fixed by its shape, so two tensors of one shape hold
  equally many elements. The second conjunct states this for the pair at hand, which keeps
  the definitions below independent of how a tensor value was built.
\<close>

definition same_shape :: "tensor \<Rightarrow> tensor \<Rightarrow> bool" where
  "same_shape s t = (shape s = shape t \<and> length (vals s) = length (vals t))"

text \<open>
  A state dict (\<^verbatim>\<open>model.state_dict()\<close>, \<^verbatim>\<open>named_parameters()\<close>) is an ordered mapping
  from parameter name to tensor: an association list whose keys are distinct.
\<close>

type_synonym state_dict = "(string \<times> tensor) list"

text \<open>
  What \<^verbatim>\<open>torch.load\<close> may return under a key of a checkpoint: a tensor, a nested
  dictionary (\<^verbatim>\<open>"ema"\<close>, \<^verbatim>\<open>"model"\<close>), or some other object (\<^verbatim>\<open>"opt"\<close>, \<^verbatim>\<open>"args"\<close>).
\<close>

datatype pyval = Tensor tensor | Dict "(string \<times> pyval) list" | Opaque

type_synonym pydict = "(string \<times> pyval) list"

datatype error =
    FileNotFoundError string
  | AttributeError
  | ZeroDivisionError
  | StateDictError string
  | ShapeError
  | EmaMismatch string

datatype log_msg =
    UsingEmaCkpt
  | Ignoring string
  | LoadedPercent real
  | LoadedModelAt string
  | ModelParameters nat
  | StepLine int int real real

subsection \<open>Python dictionaries\<close>

definition dict_contains :: "('k \<times> 'v) list \<Rightarrow> 'k \<Rightarrow> bool" where
  "dict_contains d k = (map_of d k \<noteq> None)"

fun dict_set :: "('k \<times> 'v) list \<Rightarrow> 'k \<Rightarrow> 'v \<Rightarrow> ('k \<times> 'v) list" where
  "dict_set [] k v = [(k, v)]"
| "dict_set ((k', v') # d) k v =
     (if k' = k then (k, v) # d else (k', v') # dict_set d k v)"

text \<open>\<^verbatim>\<open>d.update(u)\<close>: every entry of \<open>u\<close> is stored into \<open>d\<close>, in the order of \<open>u\<close>.\<close>

fun dict_update :: "('k \<times> 'v) list \<Rightarrow> ('k \<times> 'v) list \<Rightarrow> ('k \<times> 'v) list" where
  "dict_update d [] = d"
| "dict_update d ((k, v) # u) = dict_update (dict_set d k v) u"

section \<open>Loading pretrained parameters\<close>

text \<open>
  Lines 64 to 69 of \<^verbatim>\<open>_load_pretrained_parameters\<close>: the loop over
  \<^verbatim>\<open>checkpoint.items()\<close> that keeps the entries whose key the model has and logs the
  others. The accumulator is \<^verbatim>\<open>pretrained_dict\<close> and the log written so far.
\<close>

fun filter_keys :: "pydict \<Rightarrow> pydict \<Rightarrow> pydict \<times> log_msg list \<Rightarrow> pydict \<times> log_msg list" where
  "filter_keys model_dict [] acc = acc"
| "filter_keys model_dict ((k, v) # items) (pretrained_dict, lg) =
     (if dict_contains model_dict k
      then filter_keys model_dict items (dict_set pretrained_dict k v, lg)
      else filter_keys model_dict items (pretrained_dict, lg @ [Ignoring k]))"

text \<open>
  \<^verbatim>\<open>Module.load_state_dict(sd)\<close> with its default \<^verbatim>\<open>strict=True\<close>: a key of the
  module that \<open>sd\<close> lacks, a key of \<open>sd\<close> that the module lacks, a value that is not a
  tensor and a tensor of another shape are each an error; otherwise every parameter takes
  the elements of the tensor stored under its name.
\<close>

fun load_param :: "pydict \<Rightarrow> string \<times> tensor \<Rightarrow> error + (string \<times> tensor)" where
  "load_param sd (k, p) =
     (case map_of sd k of
        None \<Rightarrow> Inl (StateDictError k)
      | Some (Tensor t) \<Rightarrow>
          (if same_shape p t then Inr (k, p\<lparr>vals := vals t\<rparr>) else Inl (StateDictError k))
      | Some _ \<Rightarrow> Inl (StateDictError k))"

fun load_params :: "pydict \<Rightarrow> state_dict \<Rightarrow> error + state_dict" where
  "load_params sd [] = Inr []"
| "load_params sd (kp # ps) =
     (case load_param sd kp of
        Inl e \<Rightarrow> Inl e
      | Inr kp' \<Rightarrow> (case load_params sd ps of Inl e \<Rightarrow> Inl e | Inr ps' \<Rightarrow> Inr (kp' # ps')))"

definition load_state_dict :: "state_dict \<Rightarrow> pydict \<Rightarrow> error + state_dict" where
  "load_state_dict model sd =
     (case filter (\<lambda>k. \<not> dict_contains model k) (map fst sd) of
        [] \<Rightarrow> load_params sd model
      | k # _ \<Rightarrow> Inl (StateDictError k))"

text \<open>
  \<^verbatim>\<open>_load_pretrained_parameters\<close>. \<open>store\<close> is the file system seen through
  \<^verbatim>\<open>torch.load\<close>; \<open>path\<close> is \<^verbatim>\<open>args.pretrained\<close>; \<open>model\<close> holds the parameters
  of \<^verbatim>\<open>self.model\<close>. The result is the parameters of \<^verbatim>\<open>self.model\<close> afterwards and
  the messages logged, or the exception raised. The percentage of line 70 divides by the
  number of checkpoint entries.
\<close>

definition select_params :: "pydict \<Rightarrow> pyval \<times> log_msg list" where
  "select_params checkpoint =
     (if dict_contains checkpoint ''ema''
      then (the (map_of checkpoint ''ema''), [UsingEmaCkpt])
      else (Dict checkpoint, []))"

definition load_pretrained_parameters ::
    "(string \<Rightarrow> pydict option) \<Rightarrow> string \<Rightarrow> state_dict \<Rightarrow> error + (state_dict \<times> log_msg list)" where
  "load_pretrained_parameters store path model =
     (case store path of
        None \<Rightarrow> Inl (FileNotFoundError path)
      | Some checkpoint \<Rightarrow>
          (case select_params checkpoint of
             (Dict items, lg0) \<Rightarrow>
               (let model_dict = map (\<lambda>(k, p). (k, Tensor p)) model;
                    (pretrained_dict, lg1) = filter_keys model_dict items ([], lg0)
                in if length items = 0 then Inl ZeroDivisionError
                   else
                     (let lg2 = lg1 @ [LoadedPercent
                                 (real (length pretrained_dict) / real (length items) * 100)];
                          model_dict' = dict_update model_dict pretrained_dict
                      in (case load_state_dict model model_dict' of
                            Inl e \<Rightarrow> Inl e
                          | Inr model' \<Rightarrow> Inr (model', lg2 @ [LoadedModelAt path]))))
           | (_, lg0) \<Rightarrow> Inl AttributeError))"

section \<open>Configuration and module state\<close>

text \<open>
  The configuration object (\<^verbatim>\<open>args\<close>, loaded from a YAML file): the entries the
  training module and \<^verbatim>\<open>main\<close> read, and \<open>other\<close> for every further entry of the
  file. \<^verbatim>\<open>pretrained\<close> and \<^verbatim>\<open>resume_from_checkpoint\<close> may be \<^verbatim>\<open>None\<close>.
\<close>

record args =
  pretrained :: "string option"
  resume_from_checkpoint :: "string option"
  extras :: int
  start_clip_iter :: int
  clip_max_norm :: real
  log_every :: int
  lr_warmup_steps :: int
  gradient_accumulation_steps :: int
  max_train_steps :: int
  other :: "(string \<times> real) list"

text \<open>Python truthiness of \<^verbatim>\<open>args.pretrained\<close>: neither \<^verbatim>\<open>None\<close> nor the empty string.\<close>

fun truthy :: "string option \<Rightarrow> bool" where
  "truthy None = False"
| "truthy (Some p) = (p \<noteq> [])"

datatype optimizer = AdamW (lr: real) (weight_decay: real)

text \<open>
  A learning-rate scheduler of the \<^verbatim>\<open>LambdaLR\<close> kind: the factor applied to the
  optimizer's base rate, as a function of the scheduler's step counter.
\<close>

datatype scheduler = LambdaLR (lr_lambda: "int \<Rightarrow> real")

text \<open>
  The calls a run makes and the output it writes, in order. \<open>VaeEncode\<close> records the
  tensor given to the encoder and whether gradient tracking was enabled at the call;
  \<open>ClipGradNorm\<close> records \<^verbatim>\<open>max_norm\<close> and \<^verbatim>\<open>clip_grad\<close>; \<open>UpdateEma\<close> records the
  decay.
\<close>

datatype event =
    Log log_msg
  | LogMetric string real
  | VaeEncode tensor bool
  | TrainingLosses tensor "nat list" "string list option"
  | ClipGradNorm real bool
  | UpdateEma real
  | ZeroGrad
  | Backward
  | OptimizerStep

text \<open>
  The training module together with the part of the runtime it reads: the parameters of
  \<^verbatim>\<open>self.model\<close> and \<^verbatim>\<open>self.ema\<close>, the gradient each parameter of
  \<^verbatim>\<open>self.model\<close> holds (\<^verbatim>\<open>p.grad\<close>, possibly \<^verbatim>\<open>None\<close>), the trainer's counters and
  the global gradient mode of the tensor library.
\<close>

record state =
  args :: args
  model :: state_dict
  ema :: state_dict
  grads :: "real list option list"
  opt :: optimizer
  lr_scheduler :: "scheduler option"
  ema_requires_grad :: bool
  vae_requires_grad :: bool
  model_training :: bool
  ema_training :: bool
  global_step :: int
  current_epoch :: int
  grad_enabled :: bool
  trace :: "event list"

definition emit :: "event list \<Rightarrow> state \<Rightarrow> state" where
  "emit es s = s\<lparr>trace := trace s @ es\<rparr>"

section \<open>Helpers of the repository that the training module imports\<close>

text \<open>
  Modelled from the spec: \<^verbatim>\<open>update_ema\<close> of the repository's \<^verbatim>\<open>utils\<close> module, which
  is not among the sources. Section 4.3: for every parameter key,
  \<^verbatim>\<open>shadow[k] <- shadow[k] * decay + live[k] * (1 - decay)\<close>; the two sets must have
  identical key sets and shapes, and a mismatch is a fatal error, not a silent skip.
\<close>

definition ema_tensor :: "real \<Rightarrow> tensor \<Rightarrow> tensor \<Rightarrow> tensor" where
  "ema_tensor decay s l = s\<lparr>vals := map2 (\<lambda>x y. x * decay + y * (1 - decay)) (vals s) (vals l)\<rparr>"

fun update_params :: "state_dict \<Rightarrow> real \<Rightarrow> state_dict \<Rightarrow> error + state_dict" where
  "update_params live decay [] = Inr []"
| "update_params live decay ((k, s) # shadow) =
     (case map_of live k of
        None \<Rightarrow> Inl (EmaMismatch k)
      | Some l \<Rightarrow>
          (if same_shape s l
           then (case update_params live decay shadow of
                   Inl e \<Rightarrow> Inl e
                 | Inr shadow' \<Rightarrow> Inr ((k, ema_tensor decay s l) # shadow'))
           else Inl (EmaMismatch k)))"

definition update_ema :: "state_dict \<Rightarrow> state_dict \<Rightarrow> real \<Rightarrow> error + state_dict" where
  "update_ema shadow live decay =
     (case filter (\<lambda>k. \<not> dict_contains shadow k) (map fst live) of
        [] \<Rightarrow> update_params live decay shadow
      | k # _ \<Rightarrow> Inl (EmaMismatch k))"

text \<open>
  Modelled from the spec: \<^verbatim>\<open>clip_grad_norm_\<close> of the repository's \<^verbatim>\<open>utils\<close> module,
  which is not among the sources. Section 4.2: the L2 norm of the concatenation of all
  parameter gradients is always computed, a parameter without a gradient being left out;
  when \<^verbatim>\<open>enforce\<close> holds and the norm exceeds \<^verbatim>\<open>max_norm\<close>, every gradient is rescaled
  by \<^verbatim>\<open>max_norm / observed_norm\<close>; otherwise the gradients are left untouched. The result
  is the gradients afterwards and the observed norm.
\<close>

definition grad_norm :: "real list option list \<Rightarrow> real" where
  "grad_norm gs = sqrt (\<Sum>g\<leftarrow>concat (map (\<lambda>g. case g of None \<Rightarrow> [] | Some v \<Rightarrow> v) gs). g\<^sup>2)"

definition clip_grad_norm ::
    "real list option list \<Rightarrow> real \<Rightarrow> bool \<Rightarrow> real list option list \<times> real" where
  "clip_grad_norm gs max_norm clip_grad =
     (let observed_norm = grad_norm gs
      in (if clip_grad \<and> observed_norm > max_norm
          then map (map_option (map (\<lambda>g. g * (max_norm / observed_norm)))) gs
          else gs,
          observed_norm))"

section \<open>Construction of the training module\<close>

text \<open>
  \<^verbatim>\<open>LatteTrainingModule.__init__\<close>. \<open>store\<close> is the file system seen through
  \<^verbatim>\<open>torch.load\<close> and \<open>get_models\<close> builds the freshly initialised network, given here by
  its parameters. \<^verbatim>\<open>self.ema\<close> is a deep copy of the model taken before any pretrained
  parameters are loaded.
\<close>

definition numel :: "tensor \<Rightarrow> nat" where
  "numel t = prod_list (shape t)"

definition init ::
    "(string \<Rightarrow> pydict option) \<Rightarrow> (args \<Rightarrow> state_dict) \<Rightarrow> args \<Rightarrow> error + state" where
  "init store get_models a =
     (let model0 = get_models a;
          ema0 = model0
      in (case (if truthy (pretrained a) \<and> resume_from_checkpoint a \<noteq> None
                then load_pretrained_parameters store (the (pretrained a)) model0
                else Inr (model0, [])) of
            Inl e \<Rightarrow> Inl e
          | Inr (model1, lg) \<Rightarrow>
              (case update_ema ema0 model1 0 of
                 Inl e \<Rightarrow> Inl e
               | Inr ema1 \<Rightarrow>
                   Inr \<lparr> args = a, model = model1, ema = ema1,
                         grads = map (\<lambda>_. None) model1,
                         opt = AdamW (1 / 10000) 0,
                         lr_scheduler = None,
                         ema_requires_grad = False,
                         vae_requires_grad = False,
                         model_training = True,
                         ema_training = False,
                         global_step = 0, current_epoch = 0,
                         grad_enabled = True,
                         trace = map Log lg
                           @ [Log (ModelParameters (sum_list (map (numel \<circ> snd) model1))),
                              UpdateEma 0] \<rparr>)))"

section \<open>Learning-rate schedule\<close>

text \<open>
  \<^verbatim>\<open>get_scheduler\<close> belongs to the \<^verbatim>\<open>diffusers\<close> library. Its two constant policies
  are written out as the library defines them: \<^verbatim>\<open>"constant"\<close> builds
  \<^verbatim>\<open>LambdaLR(optimizer, lambda _: 1)\<close> and takes neither of the step counts;
  \<^verbatim>\<open>"constant_with_warmup"\<close> ramps with
  \<^verbatim>\<open>current_step / max(1.0, num_warmup_steps)\<close> below \<^verbatim>\<open>num_warmup_steps\<close> and is 1
  from there on. The other policy names of the library are not needed here and give
  \<open>None\<close>.
\<close>

definition get_constant_schedule :: scheduler where
  "get_constant_schedule = LambdaLR (\<lambda>_. 1)"

definition get_constant_schedule_with_warmup :: "int \<Rightarrow> scheduler" where
  "get_constant_schedule_with_warmup num_warmup_steps =
     LambdaLR (\<lambda>current_step.
       if current_step < num_warmup_steps
       then real_of_int current_step / max 1 (real_of_int num_warmup_steps)
       else 1)"

definition get_scheduler :: "string \<Rightarrow> int \<Rightarrow> int \<Rightarrow> scheduler option" where
  "get_scheduler name num_warmup_steps num_training_steps =
     (if name = ''constant'' then Some get_constant_schedule
      else if name = ''constant_with_warmup''
      then Some (get_constant_schedule_with_warmup num_warmup_steps)
      else None)"

text \<open>\<^verbatim>\<open>LatteTrainingModule.configure_optimizers\<close>.\<close>

definition configure_optimizers :: "state \<Rightarrow> state" where
  "configure_optimizers s =
     s\<lparr>lr_scheduler :=
         get_scheduler ''constant''
           (lr_warmup_steps (args s) * gradient_accumulation_steps (args s))
           (max_train_steps (args s) * gradient_accumulation_steps (args s))\<rparr>"

text \<open>
  The rate the optimizer runs at when the scheduler's counter is \<open>n\<close>: the base rate times
  the scheduler's factor, and the base rate itself while no scheduler is installed.
\<close>

definition current_lr :: "state \<Rightarrow> int \<Rightarrow> real" where
  "current_lr s n =
     (case lr_scheduler s of
        None \<Rightarrow> lr (opt s)
      | Some sched \<Rightarrow> lr (opt s) * lr_lambda sched n)"

section \<open>The training step\<close>

text \<open>
  What the module calls and does not define: the frozen frame compressor
  (\<^verbatim>\<open>vae.encode(x).latent_dist.sample()\<close>, its random draw included), the timestep
  sampler \<^verbatim>\<open>torch.randint(0, T, (n,))\<close>, the diffusion loss with the gradients that
  automatic differentiation derives for it, the optimizer's update, and the default decay
  of \<^verbatim>\<open>update_ema\<close>, which \<^verbatim>\<open>on_train_batch_end\<close> relies on.
\<close>

record externals =
  vae_encode :: "tensor \<Rightarrow> tensor"
  num_timesteps :: nat
  randint :: "nat \<Rightarrow> nat \<Rightarrow> nat list"
  training_losses :: "state_dict \<Rightarrow> tensor \<Rightarrow> nat list \<Rightarrow> string list option \<Rightarrow> real list"
  autograd :: "state_dict \<Rightarrow> tensor \<Rightarrow> nat list \<Rightarrow> string list option \<Rightarrow> real list option list"
  optimizer_step :: "optimizer \<Rightarrow> state_dict \<Rightarrow> real list option list \<Rightarrow> state_dict"
  ema_decay :: real

record batch =
  video :: tensor
  video_name :: "string list"

text \<open>
  The loss tensor that \<^verbatim>\<open>training_step\<close> returns: its value, and the gradient that a
  later \<^verbatim>\<open>backward()\<close> on it adds to each parameter.
\<close>

record loss_tensor =
  loss_value :: real
  loss_grad :: "real list option list"

text \<open>\<^verbatim>\<open>rearrange(x, "b f c h w -> (b f) c h w")\<close> and its inverse for a given \<open>b\<close>.\<close>

definition merge_frames :: "tensor \<Rightarrow> error + tensor" where
  "merge_frames x =
     (case shape x of
        [b, f, c, h, w] \<Rightarrow> Inr (x\<lparr>shape := [b * f, c, h, w]\<rparr>)
      | _ \<Rightarrow> Inl ShapeError)"

definition split_frames :: "nat \<Rightarrow> tensor \<Rightarrow> error + tensor" where
  "split_frames b x =
     (case shape x of
        [n, c, h, w] \<Rightarrow>
          (if b \<noteq> 0 \<and> n mod b = 0 then Inr (x\<lparr>shape := [b, n div b, c, h, w]\<rparr>)
           else Inl ShapeError)
      | _ \<Rightarrow> Inl ShapeError)"

definition mul_scalar :: "real \<Rightarrow> tensor \<Rightarrow> tensor" where
  "mul_scalar c x = x\<lparr>vals := map (\<lambda>v. v * c) (vals x)\<rparr>"

text \<open>
  \<^verbatim>\<open>with torch.no_grad():\<close> runs its body with gradient tracking switched off and puts
  the previous mode back afterwards.
\<close>

definition no_grad :: "(state \<Rightarrow> error + ('a \<times> state)) \<Rightarrow> state \<Rightarrow> error + ('a \<times> state)" where
  "no_grad body s =
     (case body (s\<lparr>grad_enabled := False\<rparr>) of
        Inl e \<Rightarrow> Inl e
      | Inr (r, s') \<Rightarrow> Inr (r, s'\<lparr>grad_enabled := grad_enabled s\<rparr>))"

text \<open>Lines 84 to 87, the body of the \<^verbatim>\<open>no_grad\<close> block.\<close>

definition encode_latents :: "externals \<Rightarrow> tensor \<Rightarrow> state \<Rightarrow> error + (tensor \<times> state)" where
  "encode_latents ext x s =
     (case shape x of
        [b, _, _, _, _] \<Rightarrow>
          (case merge_frames x of
             Inl e \<Rightarrow> Inl e
           | Inr x1 \<Rightarrow>
               (let s1 = emit [VaeEncode x1 (grad_enabled s)] s;
                    x2 = mul_scalar (18215 / 100000) (vae_encode ext x1)
                in (case split_frames b x2 of
                      Inl e \<Rightarrow> Inl e
                    | Inr x3 \<Rightarrow> Inr (x3, s1))))
      | _ \<Rightarrow> Inl ShapeError)"

definition mean :: "real list \<Rightarrow> real" where
  "mean xs = sum_list xs / real (length xs)"

text \<open>
  \<^verbatim>\<open>LatteTrainingModule.training_step\<close>. The result is the loss handed back to the
  caller and the state afterwards. The remainder of line 103 divides by
  \<^verbatim>\<open>args.log_every\<close>.
\<close>

definition training_step :: "externals \<Rightarrow> batch \<Rightarrow> state \<Rightarrow> error + (loss_tensor \<times> state)" where
  "training_step ext bt s =
     (case no_grad (encode_latents ext (video bt)) s of
        Inl e \<Rightarrow> Inl e
      | Inr (x, s1) \<Rightarrow>
          (let y = (if extras (args s1) = 2 then Some (video_name bt) else None);
               t = randint ext (num_timesteps ext) (hd (shape x));
               loss = \<lparr> loss_value = mean (training_losses ext (model s1) x t y),
                        loss_grad = autograd ext (model s1) x t y \<rparr>;
               s2 = emit [TrainingLosses x t y] s1;
               (gs, gradient_norm) =
                 (if global_step s2 < start_clip_iter (args s2)
                  then clip_grad_norm (grads s2) (clip_max_norm (args s2)) False
                  else clip_grad_norm (grads s2) (clip_max_norm (args s2)) True);
               s3 = emit [ClipGradNorm (clip_max_norm (args s2))
                            (\<not> global_step s2 < start_clip_iter (args s2))]
                      (s2\<lparr>grads := gs\<rparr>);
               s4 = emit [LogMetric ''train_loss'' (loss_value loss),
                          LogMetric ''gradient_norm'' gradient_norm] s3
           in if log_every (args s4) = 0 then Inl ZeroDivisionError
              else if (global_step s4 + 1) mod log_every (args s4) = 0
              then Inr (loss, emit [Log (StepLine (global_step s4 + 1) (current_epoch s4)
                                      (loss_value loss) gradient_norm)] s4)
              else Inr (loss, s4)))"

text \<open>\<^verbatim>\<open>LatteTrainingModule.on_train_batch_end\<close>.\<close>

definition on_train_batch_end :: "externals \<Rightarrow> state \<Rightarrow> error + state" where
  "on_train_batch_end ext s =
     (case update_ema (ema s) (model s) (ema_decay ext) of
        Inl e \<Rightarrow> Inl e
      | Inr ema' \<Rightarrow> Inr (emit [UpdateEma (ema_decay ext)] (s\<lparr>ema := ema'\<rparr>)))"

section \<open>The trainer that drives the module\<close>

text \<open>
  \<^verbatim>\<open>main\<close> hands the module to a \<^verbatim>\<open>pytorch_lightning\<close> trainer, which owns the loop.
  The module leaves the trainer in automatic optimization, where each batch runs as
  follows: the \<^verbatim>\<open>training_step\<close> hook; \<^verbatim>\<open>zero_grad\<close> on the first batch of an
  accumulation window; \<^verbatim>\<open>backward\<close> on the loss the hook returned; on the last batch
  of the window the optimizer step, which advances \<^verbatim>\<open>global_step\<close>; and the
  \<^verbatim>\<open>on_train_batch_end\<close> hook. The loop ends when \<^verbatim>\<open>global_step\<close> reaches
  \<^verbatim>\<open>max_steps\<close> (unless that is -1) or the batches run out.
\<close>

record trainer =
  max_steps :: int
  accumulate_grad_batches :: nat

text \<open>
  The trainer that \<^verbatim>\<open>main\<close> constructs: \<^verbatim>\<open>max_steps=args.max_train_steps\<close>, and no
  \<^verbatim>\<open>accumulate_grad_batches\<close> argument, which leaves the library's default of 1.
\<close>

definition main_trainer :: "args \<Rightarrow> trainer" where
  "main_trainer a = \<lparr> max_steps = max_train_steps a, accumulate_grad_batches = 1 \<rparr>"

fun accumulate :: "real list option \<Rightarrow> real list option \<Rightarrow> real list option" where
  "accumulate None g = g"
| "accumulate (Some a) None = Some a"
| "accumulate (Some a) (Some g) = Some (map2 (+) a g)"

definition zero_grad :: "state \<Rightarrow> state" where
  "zero_grad s = emit [ZeroGrad] (s\<lparr>grads := map (\<lambda>_. None) (grads s)\<rparr>)"

definition backward :: "loss_tensor \<Rightarrow> state \<Rightarrow> state" where
  "backward loss s = emit [Backward] (s\<lparr>grads := map2 accumulate (grads s) (loss_grad loss)\<rparr>)"

definition step_optimizer :: "externals \<Rightarrow> state \<Rightarrow> state" where
  "step_optimizer ext s =
     emit [OptimizerStep]
       (s\<lparr>model := optimizer_step ext (opt s) (model s) (grads s),
          global_step := global_step s + 1\<rparr>)"

definition run_batch :: "externals \<Rightarrow> trainer \<Rightarrow> nat \<Rightarrow> batch \<Rightarrow> state \<Rightarrow> error + state" where
  "run_batch ext tr batch_idx bt s =
     (case training_step ext bt s of
        Inl e \<Rightarrow> Inl e
      | Inr (loss, s1) \<Rightarrow>
          (let s2 = (if batch_idx mod accumulate_grad_batches tr = 0 then zero_grad s1 else s1);
               s3 = backward loss s2;
               s4 = (if (batch_idx + 1) mod accumulate_grad_batches tr = 0
                     then step_optimizer ext s3 else s3)
           in on_train_batch_end ext s4))"

fun fit_loop :: "externals \<Rightarrow> trainer \<Rightarrow> nat \<Rightarrow> batch list \<Rightarrow> state \<Rightarrow> error + state" where
  "fit_loop ext tr batch_idx [] s = Inr s"
| "fit_loop ext tr batch_idx (bt # bts) s =
     (if max_steps tr \<noteq> - 1 \<and> max_steps tr \<le> global_step s then Inr s
      else (case run_batch ext tr batch_idx bt s of
              Inl e \<Rightarrow> Inl e
            | Inr s' \<Rightarrow> fit_loop ext tr (batch_idx + 1) bts s'))"

definition fit :: "externals \<Rightarrow> trainer \<Rightarrow> batch list \<Rightarrow> state \<Rightarrow> error + state" where
  "fit ext tr bts s = fit_loop ext tr 0 bts (configure_optimizers s)"

section \<open>Example inputs\<close>

definition ex_model :: state_dict where
  "ex_model = [(''a'', \<lparr>shape = [2], vals = [1, 2]\<rparr>), (''b'', \<lparr>shape = [1], vals = [3]\<rparr>)]"

text \<open>A network builder that returns \<open>ex_model\<close> for every configuration.\<close>

definition ex_get_models :: "args \<Rightarrow> state_dict" where
  "ex_get_models a = ex_model"

definition ex_ckpt :: pydict where
  "ex_ckpt = [(''a'', Tensor \<lparr>shape = [2], vals = [5, 6]\<rparr>),
              (''c'', Tensor \<lparr>shape = [1], vals = [7]\<rparr>)]"

definition ex_ckpt_sub :: pydict where
  "ex_ckpt_sub = [(''a'', Tensor \<lparr>shape = [2], vals = [5, 6]\<rparr>)]"

definition ex_full :: pydict where
  "ex_full = [(''model'', Dict [(''a'', Tensor \<lparr>shape = [2], vals = [8, 9]\<rparr>)]),
              (''ema'', Dict ex_ckpt), (''opt'', Opaque)]"

definition ex_store :: "string \<Rightarrow> pydict option" where
  "ex_store = [''old.pt'' \<mapsto> ex_ckpt, ''sub.pt'' \<mapsto> ex_ckpt_sub, ''full.pt'' \<mapsto> ex_full]"

definition ex_args :: args where
  "ex_args = \<lparr> pretrained = Some ''old.pt'', resume_from_checkpoint = None, extras = 0,
               start_clip_iter = 100, clip_max_norm = 1, log_every = 100,
               lr_warmup_steps = 10, gradient_accumulation_steps = 1,
               max_train_steps = 1000, other = [(''weight_decay'', 1 / 100)] \<rparr>"

definition ex_args_resume :: args where
  "ex_args_resume = ex_args\<lparr>resume_from_checkpoint := Some ''ckpt/last.ckpt''\<rparr>"

text \<open>The module as \<^verbatim>\<open>__init__\<close> leaves it for \<open>ex_args\<close> and \<open>ex_model\<close>.\<close>

definition ex_state :: state where
  "ex_state = \<lparr> args = ex_args, model = ex_model, ema = ex_model,
                grads = [None, None],
                opt = AdamW (1 / 10000) 0,
                lr_scheduler = None,
                ema_requires_grad = False,
                vae_requires_grad = False,
                model_training = True,
                ema_training = False,
                global_step = 0, current_epoch = 0,
                grad_enabled = True,
                trace = [Log (ModelParameters 3), UpdateEma 0] \<rparr>"

text \<open>
  A later step of the same run: 150 optimizer steps done, and the gradients of the
  previous step, of norm 5, still held by the parameters.
\<close>

definition ex_state_late :: state where
  "ex_state_late = ex_state\<lparr>global_step := 150, grads := [Some [3, 4], Some [0]], trace := []\<rparr>"

text \<open>
  Stand-ins for the external collaborators: an encoder that yields one latent value 2 per
  frame, a timestep sampler that always draws 3, a loss of 1/2 per sample whose gradient
  has norm 5, and an optimizer that subtracts the gradient.
\<close>

definition ex_ext :: externals where
  "ex_ext = \<lparr> vae_encode = (\<lambda>x. \<lparr>shape = [hd (shape x), 1, 1, 1],
                                   vals = replicate (hd (shape x)) 2\<rparr>),
              num_timesteps = 10,
              randint = (\<lambda>T n. replicate n 3),
              training_losses = (\<lambda>m x t y. replicate (hd (shape x)) (1 / 2)),
              autograd = (\<lambda>m x t y. [Some [3, 4], Some [0]]),
              optimizer_step = (\<lambda>opt m gs.
                 map2 (\<lambda>(k, p) g. (k, case g of None \<Rightarrow> p
                                      | Some v \<Rightarrow> p\<lparr>vals := map2 (-) (vals p) v\<rparr>)) m gs),
              ema_decay = 1 / 2 \<rparr>"

definition ex_batch :: batch where
  "ex_batch = \<lparr> video = \<lparr>shape = [1, 2, 1, 1, 1], vals = [10, 20]\<rparr>, video_name = [''clip''] \<rparr>"

text \<open>The events that concern the optimizer step and the shadow update.\<close>

fun step_or_ema :: "event \<Rightarrow> bool" where
  "step_or_ema OptimizerStep = True"
| "step_or_ema (UpdateEma d) = True"
| "step_or_ema e = False"

section \<open>Dictionaries and the key filter\<close>

lemma dict_contains_iff: "dict_contains d k \<longleftrightarrow> k \<in> fst ` set d"
  by (simp add: dict_contains_def map_of_eq_None_iff)

lemma dict_set_fresh: "k \<notin> fst ` set d \<Longrightarrow> dict_set d k v = d @ [(k, v)]"
  by (induction d) auto

lemma map_of_dict_set: "map_of (dict_set d k v) = (map_of d)(k \<mapsto> v)"
  by (induction d) (auto simp: fun_eq_iff)

lemma keys_dict_set: "k \<in> fst ` set d \<Longrightarrow> map fst (dict_set d k v) = map fst d"
  by (induction d) force+

lemma filter_keys_distinct:
  "distinct (map fst items) \<Longrightarrow> fst ` set items \<inter> fst ` set pd = {} \<Longrightarrow>
   filter_keys md items (pd, lg) =
     (pd @ filter (\<lambda>kv. dict_contains md (fst kv)) items,
      lg @ map Ignoring (filter (\<lambda>k. \<not> dict_contains md k) (map fst items)))"
proof (induction items arbitrary: pd lg)
  case Nil
  then show ?case by simp
next
  case (Cons kv items)
  obtain k v where kv: "kv = (k, v)" by (cases kv)
  from Cons.prems have fresh: "k \<notin> fst ` set pd" and d: "distinct (map fst items)"
    and kn: "k \<notin> fst ` set items" and disj: "fst ` set items \<inter> fst ` set pd = {}"
    by (auto simp: kv)
  show ?case
  proof (cases "dict_contains md k")
    case True
    have "fst ` set items \<inter> fst ` set (pd @ [(k, v)]) = {}"
      using disj kn by auto
    from Cons.IH[OF d this, of lg] True fresh show ?thesis
      by (simp add: kv dict_set_fresh)
  next
    case False
    from Cons.IH[OF d disj, of "lg @ [Ignoring k]"] False show ?thesis
      by (simp add: kv)
  qed
qed

lemma filter_keys_log:
  "filter_keys md items (pd, lg) =
     (fst (filter_keys md items (pd, [])), lg @ snd (filter_keys md items (pd, [])))"
proof (induction items arbitrary: pd lg)
  case Nil
  then show ?case by simp
next
  case (Cons kv items)
  obtain k v where kv: "kv = (k, v)" by (cases kv)
  show ?case
  proof (cases "dict_contains md k")
    case True
    with Cons.IH[of "dict_set pd k v" lg] show ?thesis by (simp add: kv)
  next
    case False
    with Cons.IH[of pd "lg @ [Ignoring k]"] Cons.IH[of pd "[Ignoring k]"] show ?thesis
      by (simp add: kv)
  qed
qed

lemma map_of_dict_update:
  "distinct (map fst u) \<Longrightarrow>
   map_of (dict_update d u) k = (case map_of u k of Some v \<Rightarrow> Some v | None \<Rightarrow> map_of d k)"
proof (induction u arbitrary: d)
  case Nil
  then show ?case by simp
next
  case (Cons kv u)
  obtain k' v' where kv: "kv = (k', v')" by (cases kv)
  from Cons.prems have d: "distinct (map fst u)" and kn: "k' \<notin> fst ` set u" by (auto simp: kv)
  from kn have "map_of u k' = None" by (simp add: map_of_eq_None_iff)
  with Cons.IH[OF d, of "dict_set d k' v'"] show ?case
    by (auto simp: kv map_of_dict_set split: option.splits)
qed

lemma keys_dict_update:
  "fst ` set u \<subseteq> fst ` set d \<Longrightarrow> map fst (dict_update d u) = map fst d"
proof (induction u arbitrary: d)
  case Nil
  then show ?case by simp
next
  case (Cons kv u)
  obtain k v where kv: "kv = (k, v)" by (cases kv)
  from Cons.prems have k: "k \<in> fst ` set d" and sub: "fst ` set u \<subseteq> fst ` set d"
    by (auto simp: kv)
  have "fst ` set (dict_set d k v) = fst ` set d"
    using keys_dict_set[OF k, of v] by (metis set_map)
  with Cons.IH[of "dict_set d k v"] sub keys_dict_set[OF k, of v] show ?case
    by (simp add: kv)
qed

section \<open>Loading\<close>

lemma copy_same_shape: "same_shape p t \<Longrightarrow> p\<lparr>vals := vals t\<rparr> = t"
  by (simp add: same_shape_def)

lemma load_params_Inr:
  "load_params sd mdl = Inr m' \<Longrightarrow>
   list_all2 (\<lambda>kp kp'. fst kp' = fst kp \<and> map_of sd (fst kp) = Some (Tensor (snd kp'))
                \<and> same_shape (snd kp) (snd kp')) mdl m'"
proof (induction mdl arbitrary: m')
  case Nil
  then show ?case by simp
next
  case (Cons kp mdl)
  obtain k p where kp: "kp = (k, p)" by (cases kp)
  from Cons.prems obtain kp' ps' where
    a: "load_param sd (k, p) = Inr kp'" and b: "load_params sd mdl = Inr ps'"
    and m': "m' = kp' # ps'"
    by (auto simp: kp split: sum.splits)
  from a obtain t where "map_of sd k = Some (Tensor t)" "same_shape p t" "kp' = (k, t)"
    by (auto split: option.splits pyval.splits if_splits simp: copy_same_shape)
  with Cons.IH[OF b] show ?case by (simp add: m' kp)
qed

lemma load_params_ok:
  "\<forall>kp \<in> set mdl. \<exists>t. map_of sd (fst kp) = Some (Tensor t) \<and> same_shape (snd kp) t \<Longrightarrow>
   \<exists>m'. load_params sd mdl = Inr m'"
proof (induction mdl)
  case Nil
  then show ?case by simp
next
  case (Cons kp mdl)
  obtain k p where kp: "kp = (k, p)" by (cases kp)
  from Cons.prems obtain t where "map_of sd k = Some (Tensor t)" "same_shape p t"
    by (auto simp: kp)
  moreover from Cons obtain ps' where "load_params sd mdl = Inr ps'" by auto
  ultimately show ?case by (simp add: kp)
qed

lemma load_state_dict_same_keys:
  "map fst sd = map fst mdl \<Longrightarrow> load_state_dict mdl sd = load_params sd mdl"
proof -
  assume a: "map fst sd = map fst mdl"
  have "filter (\<lambda>k. \<not> dict_contains mdl k) (map fst sd) = []"
    unfolding a by (simp add: dict_contains_iff filter_empty_conv)
  then show ?thesis by (simp add: load_state_dict_def)
qed

lemma load_pretrained_unfold:
  assumes "store path = Some checkpoint"
      and "select_params checkpoint = (Dict items, lg0)"
      and "items \<noteq> []" and "distinct (map fst items)"
  shows "load_pretrained_parameters store path mdl =
     (case load_params
             (dict_update (map (\<lambda>(k, p). (k, Tensor p)) mdl)
                (filter (\<lambda>kv. dict_contains mdl (fst kv)) items)) mdl of
        Inl e \<Rightarrow> Inl e
      | Inr mdl' \<Rightarrow>
          Inr (mdl',
               lg0 @ map Ignoring (filter (\<lambda>k. \<not> dict_contains mdl k) (map fst items))
                 @ [LoadedPercent
                      (real (length (filter (\<lambda>kv. dict_contains mdl (fst kv)) items))
                         / real (length items) * 100),
                    LoadedModelAt path]))"
proof -
  let ?md = "map (\<lambda>(k, p). (k, Tensor p)) mdl"
  let ?pd = "filter (\<lambda>kv. dict_contains mdl (fst kv)) items"
  have keys: "map fst ?md = map fst mdl" by (induction mdl) auto
  have "fst ` set ?md = fst ` set mdl"
    using keys by (metis list.set_map)
  then have dc: "dict_contains ?md = dict_contains mdl"
    by (simp add: fun_eq_iff dict_contains_iff)
  have fk: "filter_keys ?md items ([], lg0) =
      (?pd, lg0 @ map Ignoring (filter (\<lambda>k. \<not> dict_contains mdl k) (map fst items)))"
    using filter_keys_distinct[OF assms(4), of "[]" ?md lg0] by (simp add: dc)
  have sub: "fst ` set ?pd \<subseteq> fst ` set ?md"
    unfolding \<open>fst ` set ?md = fst ` set mdl\<close> by (auto simp: dict_contains_iff)
  have "map fst (dict_update ?md ?pd) = map fst mdl"
    using keys_dict_update[OF sub] keys by simp
  then have ld: "load_state_dict mdl (dict_update ?md ?pd) = load_params (dict_update ?md ?pd) mdl"
    by (rule load_state_dict_same_keys)
  show ?thesis
    unfolding load_pretrained_parameters_def
    using assms(3)
    by (cases "load_params (dict_update ?md ?pd) mdl") (simp_all add: assms(1,2) fk ld)
qed

lemma map_of_filter_keys:
  "map_of (filter (\<lambda>kv. P (fst kv)) xs) k = (if P k then map_of xs k else None)"
  by (induction xs) auto

lemma list_all2_map_of:
  "list_all2 (\<lambda>kp kp'. fst kp' = fst kp \<and> R (fst kp) (snd kp) (snd kp')) xs ys \<Longrightarrow>
   map_of xs k = Some p \<Longrightarrow> distinct (map fst xs) \<Longrightarrow>
   \<exists>v. map_of ys k = Some v \<and> R k p v"
proof (induction xs ys rule: list_all2_induct)
  case Nil
  then show ?case by simp
next
  case (Cons x xs y ys)
  show ?case
  proof (cases "fst x = k")
    case True
    with Cons show ?thesis by (cases x; cases y) auto
  next
    case False
    with Cons show ?thesis by (cases x; cases y) auto
  qed
qed

lemma list_all2_keys:
  "list_all2 (\<lambda>kp kp'. fst kp' = fst kp \<and> Q kp kp') xs ys \<Longrightarrow> map fst ys = map fst xs"
  by (induction xs ys rule: list_all2_induct) auto

lemma map_of_update_filter:
  assumes "distinct (map fst items)"
  shows "map_of (dict_update (map (\<lambda>(k, p). (k, Tensor p)) mdl)
                  (filter (\<lambda>kv. dict_contains mdl (fst kv)) items)) k =
         (case (if dict_contains mdl k then map_of items k else None) of
            Some v \<Rightarrow> Some v
          | None \<Rightarrow> map_option Tensor (map_of mdl k))"
proof -
  have "distinct (map fst (filter (\<lambda>kv. dict_contains mdl (fst kv)) items))"
    using assms by (simp add: distinct_map_filter)
  moreover have "map_of (map (\<lambda>(k, p). (k, Tensor p)) mdl) k = map_option Tensor (map_of mdl k)"
    by (induction mdl) auto
  ultimately show ?thesis
    by (simp add: map_of_dict_update map_of_filter_keys split: option.splits)
qed

text \<open>
  Claim C7, as the code has it. Let the parameter set taken from the checkpoint be
  non-empty with distinct keys, and let every entry whose key the model has be a tensor
  of the model's shape. Then loading succeeds whatever the two key sets are. Exactly the
  entries with a matching key are applied; every checkpoint key the model lacks is logged
  as ignored, in checkpoint order; the log names no other key, so a model key that the
  checkpoint leaves unfilled is not reported; and a parameter whose key the checkpoint
  lacks keeps its value from before the load.
\<close>

theorem partial_load:
  assumes st: "store path = Some checkpoint"
      and sel: "select_params checkpoint = (Dict items, lg0)"
      and ne: "items \<noteq> []"
      and di: "distinct (map fst items)"
      and dm: "distinct (map fst mdl)"
      and shapes: "\<forall>k v p. map_of items k = Some v \<longrightarrow> map_of mdl k = Some p \<longrightarrow>
                     (\<exists>t. v = Tensor t \<and> same_shape p t)"
  shows "\<exists>mdl'. load_pretrained_parameters store path mdl =
           Inr (mdl',
                lg0 @ map Ignoring (filter (\<lambda>k. \<not> dict_contains mdl k) (map fst items))
                  @ [LoadedPercent
                       (real (length (filter (\<lambda>kv. dict_contains mdl (fst kv)) items))
                          / real (length items) * 100),
                     LoadedModelAt path])
         \<and> map fst mdl' = map fst mdl
         \<and> (\<forall>k t. dict_contains mdl k \<longrightarrow> map_of items k = Some (Tensor t) \<longrightarrow>
                    map_of mdl' k = Some t)
         \<and> (\<forall>k. \<not> dict_contains items k \<longrightarrow> map_of mdl' k = map_of mdl k)"
proof -
  let ?sd = "dict_update (map (\<lambda>(k, p). (k, Tensor p)) mdl)
               (filter (\<lambda>kv. dict_contains mdl (fst kv)) items)"
  have sd: "map_of ?sd k =
      (case (if dict_contains mdl k then map_of items k else None) of
         Some v \<Rightarrow> Some v | None \<Rightarrow> map_option Tensor (map_of mdl k))" for k
    by (rule map_of_update_filter[OF di])
  have each: "\<exists>t. map_of ?sd (fst kp) = Some (Tensor t) \<and> same_shape (snd kp) t"
    if "kp \<in> set mdl" for kp
  proof -
    obtain k p where kp: "kp = (k, p)" by (cases kp)
    from that dm have mk: "map_of mdl k = Some p" by (simp add: kp)
    then have dc: "dict_contains mdl k" by (simp add: dict_contains_def)
    show ?thesis
    proof (cases "map_of items k")
      case None
      then show ?thesis by (simp add: kp sd dc mk same_shape_def)
    next
      case (Some v)
      with shapes mk obtain t where "v = Tensor t" "same_shape p t" by blast
      with Some show ?thesis by (simp add: kp sd dc)
    qed
  qed
  then obtain mdl' where ok: "load_params ?sd mdl = Inr mdl'"
    using load_params_ok[of mdl ?sd] by blast
  note all2 = load_params_Inr[OF ok]
  have keys: "map fst mdl' = map fst mdl"
    using all2 by (rule list_all2_keys)
  have look: "\<exists>t. map_of mdl' k = Some t \<and> map_of ?sd k = Some (Tensor t)"
    if "map_of mdl k = Some p" for k p
    using list_all2_map_of[where R="\<lambda>k p t. map_of ?sd k = Some (Tensor t) \<and> same_shape p t",
            OF all2 that dm] by blast
  have matched: "map_of mdl' k = Some t"
    if "dict_contains mdl k" "map_of items k = Some (Tensor t)" for k t
  proof -
    from that(1) obtain p where "map_of mdl k = Some p" by (auto simp: dict_contains_def)
    from look[OF this] that show ?thesis by (auto simp: sd)
  qed
  have kept: "map_of mdl' k = map_of mdl k" if "\<not> dict_contains items k" for k
  proof (cases "map_of mdl k")
    case None
    then have "k \<notin> fst ` set mdl'"
      using keys by (metis list.set_map map_of_eq_None_iff)
    then have "map_of mdl' k = None" by (simp add: map_of_eq_None_iff)
    with None show ?thesis by simp
  next
    case (Some p)
    from that have "map_of items k = None" by (simp add: dict_contains_def)
    with look[OF Some] Some show ?thesis by (auto simp: sd split: if_splits)
  qed
  show ?thesis
    using load_pretrained_unfold[where store=store and path=path and mdl=mdl, OF st sel ne di]
      ok keys matched kept
    by simp
qed

lemma select_params_legacy:
  "\<not> dict_contains legacy ''ema'' \<Longrightarrow> select_params legacy = (Dict legacy, [])"
  by (simp add: select_params_def)

lemma select_params_full:
  "map_of full ''ema'' = Some v \<Longrightarrow> select_params full = (v, [UsingEmaCkpt])"
  by (simp add: select_params_def dict_contains_def)

lemma load_pretrained_prefix:
  assumes "select_params c1 = (Dict items, [])" and "select_params c2 = (Dict items, [m0])"
  shows "load_pretrained_parameters (store(path \<mapsto> c2)) path mdl =
         map_sum id (\<lambda>(m, lg). (m, m0 # lg))
           (load_pretrained_parameters (store(path \<mapsto> c1)) path mdl)"
proof -
  let ?md = "map (\<lambda>(k, p). (k, Tensor p)) mdl"
  obtain pd lg where a: "filter_keys ?md items ([], []) = (pd, lg)"
    by (cases "filter_keys ?md items ([], [])")
  have b: "filter_keys ?md items ([], [m0]) = (pd, m0 # lg)"
    using filter_keys_log[of ?md items "[]" "[m0]"] a by simp
  show ?thesis
    by (cases "load_state_dict mdl (dict_update ?md pd)")
       (simp_all add: load_pretrained_parameters_def assms a b)
qed

text \<open>
  Claim C2. The marker key is \<^verbatim>\<open>"ema"\<close>. A checkpoint without it is itself taken as the
  parameter set to load; a checkpoint with it is the full form, of which the shadow set
  stored under \<^verbatim>\<open>"ema"\<close> is taken and nothing else is read. So loading the reduced
  form gives what loading any full-form record with that shadow set gives, the one
  message that announces the shadow set apart: the reduced form's parameters stand for
  the shadow set, not for the record's live set.
\<close>

theorem legacy_checkpoint_is_shadow:
  assumes "\<not> dict_contains legacy ''ema''" and "map_of full ''ema'' = Some (Dict legacy)"
  shows "select_params legacy = (Dict legacy, [])
       \<and> select_params full = (Dict legacy, [UsingEmaCkpt])
       \<and> load_pretrained_parameters (store(path \<mapsto> full)) path mdl =
           map_sum id (\<lambda>(m, lg). (m, UsingEmaCkpt # lg))
             (load_pretrained_parameters (store(path \<mapsto> legacy)) path mdl)"
  using select_params_legacy[OF assms(1)] select_params_full[OF assms(2)]
    load_pretrained_prefix[of legacy legacy full UsingEmaCkpt store path mdl]
  by simp

lemma load_pretrained_shapes:
  assumes "load_pretrained_parameters store path mdl = Inr (mdl', lg)"
  shows "list_all2 (\<lambda>kp kp'. fst kp' = fst kp \<and> same_shape (snd kp) (snd kp')) mdl mdl'"
proof -
  from assms obtain sd where "load_state_dict mdl sd = Inr mdl'"
    unfolding load_pretrained_parameters_def
    by (auto simp: Let_def split: option.splits prod.splits pyval.splits if_splits sum.splits)
  then have "load_params sd mdl = Inr mdl'"
    by (auto simp: load_state_dict_def split: list.splits)
  from load_params_Inr[OF this] show ?thesis
    by (rule list_all2_mono) simp
qed

lemma ema_tensor_zero: "same_shape s l \<Longrightarrow> ema_tensor 0 s l = l"
proof -
  assume a: "same_shape s l"
  then have "length (vals s) = length (vals l)" by (simp add: same_shape_def)
  have "length xs = length ys \<Longrightarrow> map2 (\<lambda>x y. x * 0 + y * (1 - 0)) xs ys = ys"
    for xs ys :: "real list"
    by (induction xs ys rule: list_induct2) simp_all
  from this[OF \<open>length (vals s) = length (vals l)\<close>]
  have "map2 (\<lambda>x y. x * 0 + y * (1 - 0)) (vals s) (vals l) = vals l" .
  with a show ?thesis by (simp add: ema_tensor_def same_shape_def)
qed

lemma update_params_zero:
  "list_all2 (\<lambda>kp kp'. fst kp' = fst kp \<and> same_shape (snd kp) (snd kp')
                \<and> map_of live (fst kp) = Some (snd kp')) xs ys \<Longrightarrow>
   update_params live 0 xs = Inr ys"
proof (induction xs ys rule: list_all2_induct)
  case Nil
  then show ?case by simp
next
  case (Cons x xs y ys)
  then show ?case by (cases x; cases y) (simp add: ema_tensor_zero)
qed

lemma update_ema_zero:
  assumes all2: "list_all2 (\<lambda>kp kp'. fst kp' = fst kp \<and> same_shape (snd kp) (snd kp')) shadow live"
      and d: "distinct (map fst shadow)"
  shows "update_ema shadow live 0 = Inr live"
proof -
  have keys: "map fst live = map fst shadow"
    using all2 by (rule list_all2_keys)
  have "filter (\<lambda>k. \<not> dict_contains shadow k) (map fst live) = []"
    unfolding keys by (simp add: dict_contains_iff filter_empty_conv)
  moreover have "\<forall>kp' \<in> set live. map_of live (fst kp') = Some (snd kp')"
    using d keys by simp
  with all2 have "list_all2 (\<lambda>kp kp'. fst kp' = fst kp \<and> same_shape (snd kp) (snd kp')
                \<and> map_of live (fst kp) = Some (snd kp')) shadow live"
    by (auto simp: list_all2_conv_all_nth) (metis nth_mem)
  from update_params_zero[OF this] calculation show ?thesis
    by (simp add: update_ema_def)
qed

lemma same_shape_refl_all2:
  "list_all2 (\<lambda>kp kp'. fst kp' = fst kp \<and> same_shape (snd kp) (snd kp')) xs xs"
  by (simp add: list_all2_same same_shape_def)

lemma no_update_in_logs: "[d. UpdateEma d \<leftarrow> map Log lg] = []"
  by (induction lg) simp_all

section \<open>Construction\<close>

lemma init_Inr:
  assumes d: "distinct (map fst (gm a))" and i: "init store gm a = Inr s"
  obtains lg where
    "(if truthy (pretrained a) \<and> resume_from_checkpoint a \<noteq> None
      then load_pretrained_parameters store (the (pretrained a)) (gm a)
      else Inr (gm a, [])) = Inr (model s, lg)"
    "ema s = model s"
    "trace s = map Log lg @ [Log (ModelParameters (sum_list (map (numel \<circ> snd) (model s)))), UpdateEma 0]"
    "opt s = AdamW (1 / 10000) 0" "args s = a" "lr_scheduler s = None"
proof -
  let ?r = "if truthy (pretrained a) \<and> resume_from_checkpoint a \<noteq> None
      then load_pretrained_parameters store (the (pretrained a)) (gm a)
      else Inr (gm a, [])"
  from i obtain m1 lg where r: "?r = Inr (m1, lg)"
    unfolding init_def Let_def by (cases ?r) auto
  have "list_all2 (\<lambda>kp kp'. fst kp' = fst kp \<and> same_shape (snd kp) (snd kp')) (gm a) m1"
  proof (cases "truthy (pretrained a) \<and> resume_from_checkpoint a \<noteq> None")
    case True
    with r show ?thesis by (auto intro: load_pretrained_shapes)
  next
    case False
    with r show ?thesis by (auto simp: same_shape_refl_all2)
  qed
  from update_ema_zero[OF this d] have u: "update_ema (gm a) m1 0 = Inr m1" .
  from i have s: "s = \<lparr> args = a, model = m1, ema = m1,
                         grads = map (\<lambda>_. None) m1,
                         opt = AdamW (1 / 10000) 0,
                         lr_scheduler = None,
                         ema_requires_grad = False,
                         vae_requires_grad = False,
                         model_training = True,
                         ema_training = False,
                         global_step = 0, current_epoch = 0,
                         grad_enabled = True,
                         trace = map Log lg
                           @ [Log (ModelParameters (sum_list (map (numel \<circ> snd) m1))),
                              UpdateEma 0] \<rparr>"
    unfolding init_def Let_def r using u by simp
  have f: "model s = m1" "ema s = m1" "opt s = AdamW (1 / 10000) 0" "args s = a"
    "lr_scheduler s = None"
    "trace s = map Log lg @ [Log (ModelParameters (sum_list (map (numel \<circ> snd) m1))), UpdateEma 0]"
    by (simp_all add: s)
  show ?thesis
  proof (rule that[of lg])
    show "?r = Inr (model s, lg)" unfolding f by (rule r)
  qed (simp_all add: f)
qed

text \<open>
  Claim C5. Construction makes exactly one \<^verbatim>\<open>update_ema\<close> call, with decay 0, and
  when it returns the shadow parameters equal the live parameters exactly.
\<close>

theorem ema_bootstrap:
  assumes "distinct (map fst (gm a))" and "init store gm a = Inr s"
  shows "ema s = model s \<and> [d. UpdateEma d \<leftarrow> trace s] = [0]"
proof -
  from assms obtain lg where "ema s = model s"
    and "trace s = map Log lg @ [Log (ModelParameters (sum_list (map (numel \<circ> snd) (model s)))), UpdateEma 0]"
    by (rule init_Inr)
  then show ?thesis by (simp add: no_update_in_logs)
qed

text \<open>
  Claim C9, as the code has it. The optimizer is AdamW, the rule with decoupled weight
  decay, built with learning rate \<open>1e-4\<close> and weight-decay coefficient 0 whatever the
  configuration holds: the coefficient is fixed at zero, not configurable.
\<close>

theorem optimizer_fixed:
  assumes "distinct (map fst (gm a))" and "init store gm a = Inr s"
  shows "opt s = AdamW (1 / 10000) 0 \<and> weight_decay (opt s) = 0 \<and> lr (opt s) = 1 / 10000"
proof -
  from assms have "opt s = AdamW (1 / 10000) 0" by (rule init_Inr)
  then show ?thesis by simp
qed

lemma init_no_load:
  assumes d: "distinct (map fst (gm a))"
      and c: "\<not> (truthy (pretrained a) \<and> resume_from_checkpoint a \<noteq> None)"
  shows "init store gm a = Inr \<lparr> args = a, model = gm a, ema = gm a,
                         grads = map (\<lambda>_. None) (gm a),
                         opt = AdamW (1 / 10000) 0,
                         lr_scheduler = None,
                         ema_requires_grad = False,
                         vae_requires_grad = False,
                         model_training = True,
                         ema_training = False,
                         global_step = 0, current_epoch = 0,
                         grad_enabled = True,
                         trace = [Log (ModelParameters (sum_list (map (numel \<circ> snd) (gm a)))),
                              UpdateEma 0] \<rparr>"
proof -
  have "update_ema (gm a) (gm a) 0 = Inr (gm a)"
    by (rule update_ema_zero[OF same_shape_refl_all2 d])
  with c show ?thesis unfolding init_def Let_def by auto
qed

lemma init_load:
  assumes d: "distinct (map fst (gm a))"
      and c: "truthy (pretrained a) \<and> resume_from_checkpoint a \<noteq> None"
  shows "map_sum id model (init store gm a) =
         map_sum id fst (load_pretrained_parameters store (the (pretrained a)) (gm a))"
proof (cases "load_pretrained_parameters store (the (pretrained a)) (gm a)")
  case (Inl e)
  with c show ?thesis unfolding init_def Let_def by simp
next
  case (Inr r)
  obtain m1 lg where r: "r = (m1, lg)" by (cases r)
  from load_pretrained_shapes[OF Inr[unfolded r]]
  have "update_ema (gm a) m1 0 = Inr m1" by (rule update_ema_zero[OF _ d])
  with c Inr r show ?thesis unfolding init_def Let_def by simp
qed

text \<open>
  Claim C10. Construction loads pretrained parameters exactly when
  \<^verbatim>\<open>args.pretrained\<close> is set and \<^verbatim>\<open>args.resume_from_checkpoint\<close> is not
  \<^verbatim>\<open>None\<close>: then the model's parameters are those the load returns, and construction
  fails where the load fails. Otherwise, in particular with a pretrained path and no
  \<^verbatim>\<open>resume_from_checkpoint\<close>, nothing is loaded or logged about a load, and the model
  keeps its freshly initialised parameters.
\<close>

theorem pretrained_gate:
  assumes "distinct (map fst (gm a))"
  shows "(truthy (pretrained a) \<and> resume_from_checkpoint a \<noteq> None \<longrightarrow>
            map_sum id model (init store gm a) =
            map_sum id fst (load_pretrained_parameters store (the (pretrained a)) (gm a)))
       \<and> (\<not> (truthy (pretrained a) \<and> resume_from_checkpoint a \<noteq> None) \<longrightarrow>
            (\<exists>s. init store gm a = Inr s \<and> model s = gm a
                 \<and> trace s = [Log (ModelParameters (sum_list (map (numel \<circ> snd) (gm a)))),
                              UpdateEma 0]))"
  using init_load[where gm=gm and a=a and store=store, OF assms]
    init_no_load[where gm=gm and a=a and store=store, OF assms]
  by auto

lemma ex_load_old:
  "load_pretrained_parameters ex_store ''old.pt'' ex_model =
     Inr ([(''a'', \<lparr>shape = [2], vals = [5, 6]\<rparr>), (''b'', \<lparr>shape = [1], vals = [3]\<rparr>)],
          [Ignoring ''c'', LoadedPercent 50, LoadedModelAt ''old.pt''])"
  by (simp add: load_pretrained_parameters_def ex_store_def ex_ckpt_def ex_model_def
      select_params_def dict_contains_def load_state_dict_def same_shape_def)

text \<open>An empty parameter set stops the load at the percentage of line 70.\<close>

lemma ex_load_empty:
  "load_pretrained_parameters [''e.pt'' \<mapsto> []] ''e.pt'' ex_model = Inl ZeroDivisionError"
  by (simp add: load_pretrained_parameters_def select_params_def dict_contains_def)

theorem partial_load_witness:
  "ex_store ''old.pt'' = Some ex_ckpt \<and> select_params ex_ckpt = (Dict ex_ckpt, [])
   \<and> ex_ckpt \<noteq> [] \<and> distinct (map fst ex_ckpt) \<and> distinct (map fst ex_model)
   \<and> (\<exists>mdl'. load_pretrained_parameters ex_store ''old.pt'' ex_model =
                Inr (mdl', [Ignoring ''c'', LoadedPercent 50, LoadedModelAt ''old.pt''])
        \<and> map fst mdl' = [''a'', ''b'']
        \<and> map_of mdl' ''a'' = Some \<lparr>shape = [2], vals = [5, 6]\<rparr>
        \<and> map_of mdl' ''b'' = Some \<lparr>shape = [1], vals = [3]\<rparr>)"
proof -
  have h1: "ex_store ''old.pt'' = Some ex_ckpt" by (simp add: ex_store_def)
  have h2: "select_params ex_ckpt = (Dict ex_ckpt, [])"
    by (simp add: select_params_def dict_contains_def ex_ckpt_def)
  have h3: "ex_ckpt \<noteq> []" by (simp add: ex_ckpt_def)
  have h4: "distinct (map fst ex_ckpt)" by (simp add: ex_ckpt_def)
  have h5: "distinct (map fst ex_model)" by (simp add: ex_model_def)
  have h6: "\<forall>k v p. map_of ex_ckpt k = Some v \<longrightarrow> map_of ex_model k = Some p \<longrightarrow>
                     (\<exists>t. v = Tensor t \<and> same_shape p t)"
    by (auto simp: ex_ckpt_def ex_model_def same_shape_def split: if_splits)
  from partial_load[where store=ex_store and path="''old.pt''" and mdl=ex_model,
         OF h1 h2 h3 h4 h5 h6] obtain mdl' where
    l: "load_pretrained_parameters ex_store ''old.pt'' ex_model =
           Inr (mdl',
                [] @ map Ignoring (filter (\<lambda>k. \<not> dict_contains ex_model k) (map fst ex_ckpt))
                  @ [LoadedPercent
                       (real (length (filter (\<lambda>kv. dict_contains ex_model (fst kv)) ex_ckpt))
                          / real (length ex_ckpt) * 100),
                     LoadedModelAt ''old.pt''])"
    and k: "map fst mdl' = map fst ex_model"
    and m: "\<forall>k t. dict_contains ex_model k \<longrightarrow> map_of ex_ckpt k = Some (Tensor t) \<longrightarrow>
                    map_of mdl' k = Some t"
    and u: "\<forall>k. \<not> dict_contains ex_ckpt k \<longrightarrow> map_of mdl' k = map_of ex_model k"
    by blast
  have a: "dict_contains ex_model ''a''" "map_of ex_ckpt ''a'' = Some (Tensor \<lparr>shape = [2], vals = [5, 6]\<rparr>)"
    by (simp_all add: dict_contains_def ex_model_def ex_ckpt_def)
  have b: "\<not> dict_contains ex_ckpt ''b''" "map_of ex_model ''b'' = Some \<lparr>shape = [1], vals = [3]\<rparr>"
    by (simp_all add: dict_contains_def ex_model_def ex_ckpt_def)
  have "load_pretrained_parameters ex_store ''old.pt'' ex_model =
          Inr (mdl', [Ignoring ''c'', LoadedPercent 50, LoadedModelAt ''old.pt''])"
    using l by (simp add: dict_contains_def ex_model_def ex_ckpt_def)
  moreover have "map fst mdl' = [''a'', ''b'']" using k by (simp add: ex_model_def)
  moreover have "map_of mdl' ''a'' = Some \<lparr>shape = [2], vals = [5, 6]\<rparr>"
    using m a by blast
  moreover have "map_of mdl' ''b'' = Some \<lparr>shape = [1], vals = [3]\<rparr>"
    using u b by simp
  ultimately have "\<exists>mdl'. load_pretrained_parameters ex_store ''old.pt'' ex_model =
                Inr (mdl', [Ignoring ''c'', LoadedPercent 50, LoadedModelAt ''old.pt''])
        \<and> map fst mdl' = [''a'', ''b'']
        \<and> map_of mdl' ''a'' = Some \<lparr>shape = [2], vals = [5, 6]\<rparr>
        \<and> map_of mdl' ''b'' = Some \<lparr>shape = [1], vals = [3]\<rparr>"
    by (intro exI[of _ mdl'] conjI)
  with h1 h2 h3 h4 h5 show ?thesis by (intro conjI)
qed

text \<open>
  Claim C7 as stated fails: the model has the keys \<open>a\<close> and \<open>b\<close>, the checkpoint only
  \<open>a\<close>. Its keys are a subset of the model's, the load succeeds, and the log says
  nothing of the unfilled key \<open>b\<close>.
\<close>

theorem unfilled_key_not_reported:
  "dict_contains ex_model ''b'' \<and> \<not> dict_contains ex_ckpt_sub ''b''
   \<and> load_pretrained_parameters ex_store ''sub.pt'' ex_model =
       Inr ([(''a'', \<lparr>shape = [2], vals = [5, 6]\<rparr>), (''b'', \<lparr>shape = [1], vals = [3]\<rparr>)],
            [LoadedPercent 100, LoadedModelAt ''sub.pt''])"
  by (simp add: load_pretrained_parameters_def ex_store_def ex_ckpt_sub_def ex_model_def
      select_params_def dict_contains_def load_state_dict_def same_shape_def)

theorem legacy_checkpoint_is_shadow_witness:
  "\<not> dict_contains ex_ckpt ''ema'' \<and> map_of ex_full ''ema'' = Some (Dict ex_ckpt)
   \<and> select_params ex_ckpt = (Dict ex_ckpt, [])
   \<and> select_params ex_full = (Dict ex_ckpt, [UsingEmaCkpt])
   \<and> load_pretrained_parameters (ex_store(''p.pt'' \<mapsto> ex_full)) ''p.pt'' ex_model =
       Inr ([(''a'', \<lparr>shape = [2], vals = [5, 6]\<rparr>), (''b'', \<lparr>shape = [1], vals = [3]\<rparr>)],
            [UsingEmaCkpt, Ignoring ''c'', LoadedPercent 50, LoadedModelAt ''p.pt''])"
proof -
  have h1: "\<not> dict_contains ex_ckpt ''ema''" by (simp add: dict_contains_def ex_ckpt_def)
  have h2: "map_of ex_full ''ema'' = Some (Dict ex_ckpt)" by (simp add: ex_full_def)
  have l: "load_pretrained_parameters (ex_store(''p.pt'' \<mapsto> ex_ckpt)) ''p.pt'' ex_model =
     Inr ([(''a'', \<lparr>shape = [2], vals = [5, 6]\<rparr>), (''b'', \<lparr>shape = [1], vals = [3]\<rparr>)],
          [Ignoring ''c'', LoadedPercent 50, LoadedModelAt ''p.pt''])"
    by (simp add: load_pretrained_parameters_def ex_ckpt_def ex_model_def
        select_params_def dict_contains_def load_state_dict_def same_shape_def)
  from legacy_checkpoint_is_shadow[OF h1 h2, of ex_store "''p.pt''" ex_model] h1 h2
  show ?thesis by (simp add: l)
qed

theorem ema_bootstrap_witness:
  "distinct (map fst ex_model)
   \<and> (\<exists>s. init ex_store (\<lambda>_. ex_model) ex_args_resume = Inr s
          \<and> model s = [(''a'', \<lparr>shape = [2], vals = [5, 6]\<rparr>), (''b'', \<lparr>shape = [1], vals = [3]\<rparr>)]
          \<and> ema s = model s \<and> [d. UpdateEma d \<leftarrow> trace s] = [0])"
proof -
  have h1: "distinct (map fst ex_model)" by (simp add: ex_model_def)
  have c: "truthy (pretrained ex_args_resume) \<and> resume_from_checkpoint ex_args_resume \<noteq> None"
    "the (pretrained ex_args_resume) = ''old.pt''"
    by (simp_all add: ex_args_resume_def ex_args_def)
  have "\<exists>s. init ex_store (\<lambda>_. ex_model) ex_args_resume = Inr s
          \<and> model s = [(''a'', \<lparr>shape = [2], vals = [5, 6]\<rparr>), (''b'', \<lparr>shape = [1], vals = [3]\<rparr>)]"
    unfolding init_def Let_def
    apply (simp add: c ex_load_old)
    apply (simp add: update_ema_def ex_model_def dict_contains_def same_shape_def
        ema_tensor_def)
    done
  then obtain s where s: "init ex_store (\<lambda>_. ex_model) ex_args_resume = Inr s"
    and m: "model s = [(''a'', \<lparr>shape = [2], vals = [5, 6]\<rparr>), (''b'', \<lparr>shape = [1], vals = [3]\<rparr>)]"
    by blast
  from ema_bootstrap[of "\<lambda>_. ex_model" ex_args_resume ex_store s] h1 s m
  show ?thesis by auto
qed

theorem optimizer_fixed_witness:
  "distinct (map fst ex_model)
   \<and> (\<exists>s. init ex_store (\<lambda>_. ex_model) ex_args = Inr s
          \<and> opt s = AdamW (1 / 10000) 0 \<and> weight_decay (opt s) = 0 \<and> lr (opt s) = 1 / 10000)"
proof -
  have h1: "distinct (map fst ex_model)" by (simp add: ex_model_def)
  have c: "\<not> (truthy (pretrained ex_args) \<and> resume_from_checkpoint ex_args \<noteq> None)"
    by (simp add: ex_args_def)
  from init_no_load[where gm="\<lambda>_. ex_model" and a=ex_args and store=ex_store, OF h1 c]
  obtain s where s: "init ex_store (\<lambda>_. ex_model) ex_args = Inr s" by blast
  from optimizer_fixed[where gm="\<lambda>_. ex_model" and a=ex_args and store=ex_store, OF h1 s] h1 s
  show ?thesis by blast
qed

text \<open>
  Claim C9 as stated fails: a configuration that asks for a weight decay of 0.01 gets an
  optimizer whose weight-decay coefficient is 0.
\<close>

theorem weight_decay_not_configurable:
  "map_of (other ex_args) ''weight_decay'' = Some (1 / 100)
   \<and> init ex_store ex_get_models ex_args = Inr ex_state
   \<and> weight_decay (opt ex_state) = 0"
proof -
  have g: "ex_get_models = (\<lambda>_. ex_model)" by (simp add: fun_eq_iff ex_get_models_def)
  have h1: "distinct (map fst ((\<lambda>_. ex_model) ex_args))" by (simp add: ex_model_def)
  have c: "\<not> (truthy (pretrained ex_args) \<and> resume_from_checkpoint ex_args \<noteq> None)"
    by (simp add: ex_args_def)
  have "init ex_store ex_get_models ex_args = Inr ex_state"
    unfolding g
      init_no_load[where gm="\<lambda>_. ex_model" and a=ex_args and store=ex_store, OF h1 c]
    by (simp add: ex_state_def) (simp add: ex_model_def numel_def)
  then show ?thesis by (simp add: ex_args_def ex_state_def)
qed

theorem pretrained_gate_witness:
  "distinct (map fst ex_model)
   \<and> (truthy (pretrained ex_args_resume) \<and> resume_from_checkpoint ex_args_resume \<noteq> None)
   \<and> map_sum id model (init ex_store (\<lambda>_. ex_model) ex_args_resume) =
       Inr [(''a'', \<lparr>shape = [2], vals = [5, 6]\<rparr>), (''b'', \<lparr>shape = [1], vals = [3]\<rparr>)]
   \<and> truthy (pretrained ex_args)
   \<and> \<not> (truthy (pretrained ex_args) \<and> resume_from_checkpoint ex_args \<noteq> None)
   \<and> (\<exists>s. init ex_store (\<lambda>_. ex_model) ex_args = Inr s \<and> model s = ex_model
          \<and> trace s = [Log (ModelParameters 3), UpdateEma 0])"
proof -
  have h1: "distinct (map fst ex_model)" by (simp add: ex_model_def)
  have c1: "truthy (pretrained ex_args_resume) \<and> resume_from_checkpoint ex_args_resume \<noteq> None"
    and p: "the (pretrained ex_args_resume) = ''old.pt''"
    by (simp_all add: ex_args_resume_def ex_args_def)
  have c2: "\<not> (truthy (pretrained ex_args) \<and> resume_from_checkpoint ex_args \<noteq> None)"
    and t: "truthy (pretrained ex_args)"
    by (simp_all add: ex_args_def)
  have n: "sum_list (map (numel \<circ> snd) ex_model) = 3"
    by (simp add: ex_model_def numel_def)
  from pretrained_gate[where gm="\<lambda>_. ex_model" and a=ex_args_resume and store=ex_store, OF h1] c1
  have a: "map_sum id model (init ex_store (\<lambda>_. ex_model) ex_args_resume) =
       Inr [(''a'', \<lparr>shape = [2], vals = [5, 6]\<rparr>), (''b'', \<lparr>shape = [1], vals = [3]\<rparr>)]"
    by (simp add: p ex_load_old)
  from pretrained_gate[where gm="\<lambda>_. ex_model" and a=ex_args and store=ex_store, OF h1] c2
  have b: "\<exists>s. init ex_store (\<lambda>_. ex_model) ex_args = Inr s \<and> model s = ex_model
          \<and> trace s = [Log (ModelParameters 3), UpdateEma 0]"
    by (simp add: n)
  from h1 c1 a t c2 b show ?thesis by (intro conjI; blast)
qed

section \<open>The training step and the trainer\<close>

lemma ex_init: "init ex_store (\<lambda>_. ex_model) ex_args = Inr ex_state"
proof -
  have h1: "distinct (map fst ((\<lambda>_. ex_model) ex_args))" by (simp add: ex_model_def)
  have c: "\<not> (truthy (pretrained ex_args) \<and> resume_from_checkpoint ex_args \<noteq> None)"
    by (simp add: ex_args_def)
  show ?thesis
    unfolding init_no_load[where gm="\<lambda>_. ex_model" and a=ex_args and store=ex_store, OF h1 c]
    by (simp add: ex_state_def) (simp add: ex_model_def numel_def)
qed

lemma split_frames_Inr:
  "split_frames b x2 = Inr x \<Longrightarrow> hd (shape x) = b \<and> vals x = vals x2"
  by (auto simp: split_frames_def split: list.splits if_splits)

lemma encode_Inr:
  assumes "no_grad (encode_latents ext v) s = Inr (x, s1)"
  obtains b f c h w where
    "shape v = [b, f, c, h, w]"
    "merge_frames v = Inr (v\<lparr>shape := [b * f, c, h, w]\<rparr>)"
    "split_frames b (mul_scalar (18215 / 100000) (vae_encode ext (v\<lparr>shape := [b * f, c, h, w]\<rparr>))) = Inr x"
    "s1 = emit [VaeEncode (v\<lparr>shape := [b * f, c, h, w]\<rparr>) False] s"
proof -
  from assms obtain b f c h w where sh: "shape v = [b, f, c, h, w]"
    by (auto simp: no_grad_def encode_latents_def split: list.splits sum.splits)
  let ?x1 = "v\<lparr>shape := [b * f, c, h, w]\<rparr>"
  have m: "merge_frames v = Inr ?x1" by (simp add: merge_frames_def sh)
  from assms have sp: "split_frames b (mul_scalar (18215 / 100000) (vae_encode ext ?x1)) = Inr x"
    and s1: "s1 = emit [VaeEncode ?x1 False] s"
    by (auto simp: no_grad_def encode_latents_def sh m Let_def emit_def split: sum.splits)
  from sh m sp s1 show ?thesis by (rule that)
qed


lemma clip_grad_norm_snd: "snd (clip_grad_norm gs m e) = grad_norm gs"
  by (simp add: clip_grad_norm_def Let_def)

lemma training_step_Inr:
  assumes ts: "training_step ext bt s = Inr (loss, s')"
  obtains b f c h w x where
    "shape (video bt) = [b, f, c, h, w]"
    "split_frames b (mul_scalar (18215 / 100000)
        (vae_encode ext ((video bt)\<lparr>shape := [b * f, c, h, w]\<rparr>))) = Inr x"
    "loss = \<lparr> loss_value = mean (training_losses ext (model s) x
                  (randint ext (num_timesteps ext) b)
                  (if extras (args s) = 2 then Some (video_name bt) else None)),
              loss_grad = autograd ext (model s) x (randint ext (num_timesteps ext) b)
                  (if extras (args s) = 2 then Some (video_name bt) else None) \<rparr>"
    "log_every (args s) \<noteq> 0"
    "s' = s\<lparr>grads := fst (clip_grad_norm (grads s) (clip_max_norm (args s))
                          (start_clip_iter (args s) \<le> global_step s)),
            trace := trace s @
              [VaeEncode ((video bt)\<lparr>shape := [b * f, c, h, w]\<rparr>) False,
               TrainingLosses x (randint ext (num_timesteps ext) b)
                 (if extras (args s) = 2 then Some (video_name bt) else None),
               ClipGradNorm (clip_max_norm (args s)) (start_clip_iter (args s) \<le> global_step s),
               LogMetric ''train_loss'' (loss_value loss),
               LogMetric ''gradient_norm'' (grad_norm (grads s))]
              @ (if (global_step s + 1) mod log_every (args s) = 0
                 then [Log (StepLine (global_step s + 1) (current_epoch s) (loss_value loss)
                         (grad_norm (grads s)))]
                 else [])\<rparr>"
proof -
  from ts obtain x s1 where e: "no_grad (encode_latents ext (video bt)) s = Inr (x, s1)"
    unfolding training_step_def by (auto split: sum.splits)
  from e obtain b f c h w where sh: "shape (video bt) = [b, f, c, h, w]"
    and sp: "split_frames b (mul_scalar (18215 / 100000)
        (vae_encode ext ((video bt)\<lparr>shape := [b * f, c, h, w]\<rparr>))) = Inr x"
    and s1: "s1 = emit [VaeEncode ((video bt)\<lparr>shape := [b * f, c, h, w]\<rparr>) False] s"
    by (rule encode_Inr)
  from split_frames_Inr[OF sp] have hd: "hd (shape x) = b" by simp
  have le: "(start_clip_iter (args s) \<le> global_step s) = (\<not> global_step s < start_clip_iter (args s))"
    by auto
  from ts have ne: "log_every (args s) \<noteq> 0"
    unfolding training_step_def e
    by (auto simp: Let_def s1 emit_def split: prod.splits if_splits)
  from ts have lo: "loss = \<lparr> loss_value = mean (training_losses ext (model s) x
                  (randint ext (num_timesteps ext) b)
                  (if extras (args s) = 2 then Some (video_name bt) else None)),
              loss_grad = autograd ext (model s) x (randint ext (num_timesteps ext) b)
                  (if extras (args s) = 2 then Some (video_name bt) else None) \<rparr>"
    unfolding training_step_def e
    by (auto simp: Let_def s1 emit_def hd split: prod.splits if_splits)
  from ts have st: "s' = s\<lparr>grads := fst (clip_grad_norm (grads s) (clip_max_norm (args s))
                          (start_clip_iter (args s) \<le> global_step s)),
            trace := trace s @
              [VaeEncode ((video bt)\<lparr>shape := [b * f, c, h, w]\<rparr>) False,
               TrainingLosses x (randint ext (num_timesteps ext) b)
                 (if extras (args s) = 2 then Some (video_name bt) else None),
               ClipGradNorm (clip_max_norm (args s)) (start_clip_iter (args s) \<le> global_step s),
               LogMetric ''train_loss'' (loss_value loss),
               LogMetric ''gradient_norm'' (grad_norm (grads s))]
              @ (if (global_step s + 1) mod log_every (args s) = 0
                 then [Log (StepLine (global_step s + 1) (current_epoch s) (loss_value loss)
                         (grad_norm (grads s)))]
                 else [])\<rparr>"
    unfolding training_step_def e le
    by (auto simp: Let_def s1 emit_def hd clip_grad_norm_def split: prod.splits if_splits)
  from sh sp lo ne st show ?thesis by (rule that)
qed

text \<open>
  Claim C8. In every training step that returns, the frame compressor is called exactly
  once, with gradient tracking disabled whatever the mode was before, and the tensor that
  enters the diffusion loss is the compressor's output multiplied by 0.18215 (and
  regrouped by sample); the gradient mode is put back afterwards.
\<close>

theorem encoder_no_grad_scaled:
  assumes "training_step ext bt s = Inr (loss, s')"
  shows "\<exists>b x1 x t y rest.
           merge_frames (video bt) = Inr x1
         \<and> split_frames b (mul_scalar (18215 / 100000) (vae_encode ext x1)) = Inr x
         \<and> vals x = map (\<lambda>v. v * (18215 / 100000)) (vals (vae_encode ext x1))
         \<and> trace s' = trace s @ [VaeEncode x1 False, TrainingLosses x t y] @ rest
         \<and> (\<forall>e \<in> set rest. \<forall>z g. e \<noteq> VaeEncode z g)
         \<and> (\<forall>e \<in> set rest. \<forall>z t' y'. e \<noteq> TrainingLosses z t' y')
         \<and> grad_enabled s' = grad_enabled s"
proof -
  from assms obtain b f c h w x where
    sh: "shape (video bt) = [b, f, c, h, w]"
    and sp: "split_frames b (mul_scalar (18215 / 100000)
        (vae_encode ext ((video bt)\<lparr>shape := [b * f, c, h, w]\<rparr>))) = Inr x"
    and st: "s' = s\<lparr>grads := fst (clip_grad_norm (grads s) (clip_max_norm (args s))
                          (start_clip_iter (args s) \<le> global_step s)),
            trace := trace s @
              [VaeEncode ((video bt)\<lparr>shape := [b * f, c, h, w]\<rparr>) False,
               TrainingLosses x (randint ext (num_timesteps ext) b)
                 (if extras (args s) = 2 then Some (video_name bt) else None),
               ClipGradNorm (clip_max_norm (args s)) (start_clip_iter (args s) \<le> global_step s),
               LogMetric ''train_loss'' (loss_value loss),
               LogMetric ''gradient_norm'' (grad_norm (grads s))]
              @ (if (global_step s + 1) mod log_every (args s) = 0
                 then [Log (StepLine (global_step s + 1) (current_epoch s) (loss_value loss)
                         (grad_norm (grads s)))]
                 else [])\<rparr>"
    by (rule training_step_Inr)
  let ?x1 = "(video bt)\<lparr>shape := [b * f, c, h, w]\<rparr>"
  let ?rest = "[ClipGradNorm (clip_max_norm (args s)) (start_clip_iter (args s) \<le> global_step s),
               LogMetric ''train_loss'' (loss_value loss),
               LogMetric ''gradient_norm'' (grad_norm (grads s))]
              @ (if (global_step s + 1) mod log_every (args s) = 0
                 then [Log (StepLine (global_step s + 1) (current_epoch s) (loss_value loss)
                         (grad_norm (grads s)))]
                 else [])"
  have m: "merge_frames (video bt) = Inr ?x1" by (simp add: merge_frames_def sh)
  have v: "vals x = map (\<lambda>v. v * (18215 / 100000)) (vals (vae_encode ext ?x1))"
    using split_frames_Inr[OF sp] by (simp add: mul_scalar_def)
  have t: "trace s' = trace s @ [VaeEncode ?x1 False,
             TrainingLosses x (randint ext (num_timesteps ext) b)
                 (if extras (args s) = 2 then Some (video_name bt) else None)] @ ?rest"
    by (simp add: st)
  have r1: "\<forall>e \<in> set ?rest. \<forall>z g. e \<noteq> VaeEncode z g" by simp
  have r2: "\<forall>e \<in> set ?rest. \<forall>z t' y'. e \<noteq> TrainingLosses z t' y'" by simp
  have g: "grad_enabled s' = grad_enabled s" by (simp add: st)
  from m sp v t r1 r2 g show ?thesis by blast
qed

text \<open>
  Claim C4. In every training step that returns, the governor is called exactly once, with
  \<^verbatim>\<open>clip_grad\<close> true exactly when \<^verbatim>\<open>global_step >= start_clip_iter\<close>. The observed
  norm is logged in either case. Below the threshold the gradients are left as they are;
  at or above it they are rescaled by \<^verbatim>\<open>max_norm / observed_norm\<close> when the observed
  norm exceeds \<^verbatim>\<open>max_norm\<close>, and left as they are otherwise.
\<close>

theorem clipping_threshold:
  assumes "training_step ext bt s = Inr (loss, s')"
  shows "[(m, e). ClipGradNorm m e \<leftarrow> drop (length (trace s)) (trace s')] =
           [(clip_max_norm (args s), start_clip_iter (args s) \<le> global_step s)]
       \<and> grads s' = fst (clip_grad_norm (grads s) (clip_max_norm (args s))
                          (start_clip_iter (args s) \<le> global_step s))
       \<and> [v. LogMetric k v \<leftarrow> drop (length (trace s)) (trace s'), k = ''gradient_norm''] =
           [grad_norm (grads s)]
       \<and> (global_step s < start_clip_iter (args s) \<longrightarrow> grads s' = grads s)
       \<and> (start_clip_iter (args s) \<le> global_step s
            \<and> clip_max_norm (args s) < grad_norm (grads s) \<longrightarrow>
            grads s' = map (map_option (map (\<lambda>g. g * (clip_max_norm (args s)
                                                      / grad_norm (grads s))))) (grads s))
       \<and> (start_clip_iter (args s) \<le> global_step s
            \<and> grad_norm (grads s) \<le> clip_max_norm (args s) \<longrightarrow> grads s' = grads s)"
proof -
  from assms obtain b f c h w x where
    st: "s' = s\<lparr>grads := fst (clip_grad_norm (grads s) (clip_max_norm (args s))
                          (start_clip_iter (args s) \<le> global_step s)),
            trace := trace s @
              [VaeEncode ((video bt)\<lparr>shape := [b * f, c, h, w]\<rparr>) False,
               TrainingLosses x (randint ext (num_timesteps ext) b)
                 (if extras (args s) = 2 then Some (video_name bt) else None),
               ClipGradNorm (clip_max_norm (args s)) (start_clip_iter (args s) \<le> global_step s),
               LogMetric ''train_loss'' (loss_value loss),
               LogMetric ''gradient_norm'' (grad_norm (grads s))]
              @ (if (global_step s + 1) mod log_every (args s) = 0
                 then [Log (StepLine (global_step s + 1) (current_epoch s) (loss_value loss)
                         (grad_norm (grads s)))]
                 else [])\<rparr>"
    by (rule training_step_Inr)
  have a: "[(m, e). ClipGradNorm m e \<leftarrow> drop (length (trace s)) (trace s')] =
           [(clip_max_norm (args s), start_clip_iter (args s) \<le> global_step s)]"
    by (simp add: st)
  have b: "grads s' = fst (clip_grad_norm (grads s) (clip_max_norm (args s))
                          (start_clip_iter (args s) \<le> global_step s))"
    by (simp add: st)
  have c: "[v. LogMetric k v \<leftarrow> drop (length (trace s)) (trace s'), k = ''gradient_norm''] =
           [grad_norm (grads s)]"
    by (simp add: st)
  from a b c show ?thesis by (auto simp: clip_grad_norm_def Let_def)
qed

lemma training_step_trace:
  assumes "training_step ext bt s = Inr (loss, s')"
  shows "\<exists>x1 x t y rest. trace s' = trace s @ [VaeEncode x1 False, TrainingLosses x t y,
             ClipGradNorm (clip_max_norm (args s)) (start_clip_iter (args s) \<le> global_step s)]
             @ rest
         \<and> Backward \<notin> set rest \<and> filter step_or_ema rest = []
         \<and> global_step s' = global_step s \<and> args s' = args s"
proof -
  from assms obtain b f c h w x where
    st: "s' = s\<lparr>grads := fst (clip_grad_norm (grads s) (clip_max_norm (args s))
                          (start_clip_iter (args s) \<le> global_step s)),
            trace := trace s @
              [VaeEncode ((video bt)\<lparr>shape := [b * f, c, h, w]\<rparr>) False,
               TrainingLosses x (randint ext (num_timesteps ext) b)
                 (if extras (args s) = 2 then Some (video_name bt) else None),
               ClipGradNorm (clip_max_norm (args s)) (start_clip_iter (args s) \<le> global_step s),
               LogMetric ''train_loss'' (loss_value loss),
               LogMetric ''gradient_norm'' (grad_norm (grads s))]
              @ (if (global_step s + 1) mod log_every (args s) = 0
                 then [Log (StepLine (global_step s + 1) (current_epoch s) (loss_value loss)
                         (grad_norm (grads s)))]
                 else [])\<rparr>"
    by (rule training_step_Inr)
  let ?rest = "[LogMetric ''train_loss'' (loss_value loss),
               LogMetric ''gradient_norm'' (grad_norm (grads s))]
              @ (if (global_step s + 1) mod log_every (args s) = 0
                 then [Log (StepLine (global_step s + 1) (current_epoch s) (loss_value loss)
                         (grad_norm (grads s)))]
                 else [])"
  have "trace s' = trace s @ [VaeEncode ((video bt)\<lparr>shape := [b * f, c, h, w]\<rparr>) False,
               TrainingLosses x (randint ext (num_timesteps ext) b)
                 (if extras (args s) = 2 then Some (video_name bt) else None),
             ClipGradNorm (clip_max_norm (args s)) (start_clip_iter (args s) \<le> global_step s)]
             @ ?rest"
    by (simp add: st)
  moreover have "Backward \<notin> set ?rest" "filter step_or_ema ?rest = []" by simp_all
  moreover have "global_step s' = global_step s" "args s' = args s" by (simp_all add: st)
  ultimately show ?thesis by blast
qed

lemma run_batch_Inr:
  assumes "run_batch ext tr i bt s = Inr s'"
  obtains loss s1 where
    "training_step ext bt s = Inr (loss, s1)"
    "trace s' = trace s1
        @ (if i mod accumulate_grad_batches tr = 0 then [ZeroGrad] else [])
        @ [Backward]
        @ (if (i + 1) mod accumulate_grad_batches tr = 0 then [OptimizerStep] else [])
        @ [UpdateEma (ema_decay ext)]"
    "global_step s' = global_step s1
        + (if (i + 1) mod accumulate_grad_batches tr = 0 then 1 else 0)"
    "args s' = args s1"
proof -
  from assms obtain loss s1 where ts: "training_step ext bt s = Inr (loss, s1)"
    unfolding run_batch_def by (auto split: sum.splits)
  let ?s2 = "if i mod accumulate_grad_batches tr = 0 then zero_grad s1 else s1"
  let ?s3 = "backward loss ?s2"
  let ?s4 = "if (i + 1) mod accumulate_grad_batches tr = 0 then step_optimizer ext ?s3 else ?s3"
  from assms have e: "on_train_batch_end ext ?s4 = Inr s'"
    unfolding run_batch_def ts by (simp add: Let_def)
  then obtain ema' where s': "s' = emit [UpdateEma (ema_decay ext)] (?s4\<lparr>ema := ema'\<rparr>)"
    unfolding on_train_batch_end_def by (auto split: sum.splits)
  have t: "trace s' = trace s1
        @ (if i mod accumulate_grad_batches tr = 0 then [ZeroGrad] else [])
        @ [Backward]
        @ (if (i + 1) mod accumulate_grad_batches tr = 0 then [OptimizerStep] else [])
        @ [UpdateEma (ema_decay ext)]"
    unfolding s' by (simp add: emit_def zero_grad_def backward_def step_optimizer_def)
  have g: "global_step s' = global_step s1
        + (if (i + 1) mod accumulate_grad_batches tr = 0 then 1 else 0)"
    unfolding s' by (simp add: emit_def zero_grad_def backward_def step_optimizer_def)
  have a: "args s' = args s1"
    unfolding s' by (simp add: emit_def zero_grad_def backward_def step_optimizer_def)
  from ts t g a show ?thesis by (rule that)
qed

text \<open>
  Whatever the trainer's accumulation setting, a batch that completes calls the governor
  inside \<^verbatim>\<open>training_step\<close>, and the only \<^verbatim>\<open>backward\<close> of the batch comes after it.
\<close>

lemma governor_before_backward:
  assumes "run_batch ext tr i bt s = Inr s'"
  shows "\<exists>pre post. trace s' = trace s @ pre
           @ [ClipGradNorm (clip_max_norm (args s)) (start_clip_iter (args s) \<le> global_step s)]
           @ post @ [Backward] @ (if (i + 1) mod accumulate_grad_batches tr = 0 then [OptimizerStep] else [])
           @ [UpdateEma (ema_decay ext)]
         \<and> Backward \<notin> set pre \<and> Backward \<notin> set post"
proof -
  from assms obtain loss s1 where ts: "training_step ext bt s = Inr (loss, s1)"
    and t: "trace s' = trace s1
        @ (if i mod accumulate_grad_batches tr = 0 then [ZeroGrad] else [])
        @ [Backward]
        @ (if (i + 1) mod accumulate_grad_batches tr = 0 then [OptimizerStep] else [])
        @ [UpdateEma (ema_decay ext)]"
    by (rule run_batch_Inr)
  from training_step_trace[OF ts] obtain x1 x t' y rest where
    t1: "trace s1 = trace s @ [VaeEncode x1 False, TrainingLosses x t' y,
             ClipGradNorm (clip_max_norm (args s)) (start_clip_iter (args s) \<le> global_step s)]
             @ rest"
    and nb: "Backward \<notin> set rest" by blast
  let ?pre = "[VaeEncode x1 False, TrainingLosses x t' y]"
  let ?post = "rest @ (if i mod accumulate_grad_batches tr = 0 then [ZeroGrad] else [])"
  have "trace s' = trace s @ ?pre
           @ [ClipGradNorm (clip_max_norm (args s)) (start_clip_iter (args s) \<le> global_step s)]
           @ ?post @ [Backward] @ (if (i + 1) mod accumulate_grad_batches tr = 0 then [OptimizerStep] else [])
           @ [UpdateEma (ema_decay ext)]"
    by (simp add: t t1)
  moreover have "Backward \<notin> set ?pre" "Backward \<notin> set ?post" using nb by simp_all
  ultimately show ?thesis by blast
qed

lemma run_batch_main:
  assumes "run_batch ext (main_trainer a) i bt s = Inr s'"
  shows "\<exists>new. trace s' = trace s @ new
           \<and> filter step_or_ema new = [OptimizerStep, UpdateEma (ema_decay ext)]
           \<and> global_step s' = global_step s + 1"
proof -
  from assms obtain loss s1 where ts: "training_step ext bt s = Inr (loss, s1)"
    and t: "trace s' = trace s1 @ [ZeroGrad] @ [Backward] @ [OptimizerStep]
              @ [UpdateEma (ema_decay ext)]"
    and g: "global_step s' = global_step s1 + 1"
    by (rule run_batch_Inr) (simp add: main_trainer_def)
  from training_step_trace[OF ts] obtain x1 x t' y rest where
    t1: "trace s1 = trace s @ [VaeEncode x1 False, TrainingLosses x t' y,
             ClipGradNorm (clip_max_norm (args s)) (start_clip_iter (args s) \<le> global_step s)]
             @ rest"
    and f: "filter step_or_ema rest = []" and g1: "global_step s1 = global_step s" by blast
  let ?new = "[VaeEncode x1 False, TrainingLosses x t' y,
             ClipGradNorm (clip_max_norm (args s)) (start_clip_iter (args s) \<le> global_step s)]
             @ rest @ [ZeroGrad, Backward, OptimizerStep, UpdateEma (ema_decay ext)]"
  have "trace s' = trace s @ ?new" by (simp add: t t1)
  moreover have "filter step_or_ema ?new = [OptimizerStep, UpdateEma (ema_decay ext)]"
    by (simp add: f)
  ultimately show ?thesis using g g1 by (intro exI[of _ ?new]) simp
qed

lemma fit_loop_main:
  "fit_loop ext (main_trainer a) i bts s = Inr s' \<Longrightarrow>
   \<exists>new n. trace s' = trace s @ new
     \<and> filter step_or_ema new = concat (replicate n [OptimizerStep, UpdateEma (ema_decay ext)])
     \<and> global_step s' = global_step s + int n \<and> n \<le> length bts"
proof (induction bts arbitrary: i s)
  case Nil
  then show ?case by (intro exI[of _ "[]"] exI[of _ 0]) simp
next
  case (Cons bt bts)
  show ?case
  proof (cases "max_steps (main_trainer a) \<noteq> - 1 \<and> max_steps (main_trainer a) \<le> global_step s")
    case True
    with Cons.prems have "s' = s" by simp
    then show ?thesis by (intro exI[of _ "[]"] exI[of _ 0]) simp
  next
    case False
    with Cons.prems obtain s1 where rb: "run_batch ext (main_trainer a) i bt s = Inr s1"
      and fl: "fit_loop ext (main_trainer a) (i + 1) bts s1 = Inr s'"
      by (auto split: sum.splits)
    from run_batch_main[OF rb] obtain new1 where
      a1: "trace s1 = trace s @ new1"
      and a2: "filter step_or_ema new1 = [OptimizerStep, UpdateEma (ema_decay ext)]"
      and a3: "global_step s1 = global_step s + 1" by blast
    from Cons.IH[OF fl] obtain new2 n where
      b1: "trace s' = trace s1 @ new2"
      and b2: "filter step_or_ema new2 =
                 concat (replicate n [OptimizerStep, UpdateEma (ema_decay ext)])"
      and b3: "global_step s' = global_step s1 + int n" and b4: "n \<le> length bts" by blast
    show ?thesis
      by (intro exI[of _ "new1 @ new2"] exI[of _ "Suc n"]) (simp add: a1 a2 a3 b1 b2 b3 b4)
  qed
qed

text \<open>
  Claim C6. In a run of the trainer that \<^verbatim>\<open>main\<close> constructs, whatever the configuration
  (its \<^verbatim>\<open>gradient_accumulation_steps\<close> included, which only scales the scheduler's step
  counts), the optimizer steps and shadow updates alternate: each optimizer step is
  followed by exactly one shadow update before the next step, none comes before the first
  step, and there are as many pairs as \<^verbatim>\<open>global_step\<close> advanced.
\<close>

theorem ema_once_per_optimizer_step:
  assumes "fit ext (main_trainer a) bts s = Inr s'"
  shows "\<exists>new n. trace s' = trace s @ new
     \<and> filter step_or_ema new = concat (replicate n [OptimizerStep, UpdateEma (ema_decay ext)])
     \<and> global_step s' = global_step s + int n"
proof -
  from assms have "fit_loop ext (main_trainer a) 0 bts (configure_optimizers s) = Inr s'"
    by (simp add: fit_def)
  from fit_loop_main[OF this] show ?thesis
    by (auto simp: configure_optimizers_def)
qed

section \<open>Evaluation on the example inputs\<close>

lemma grad_norm_none: "grad_norm [None, None] = 0"
  by (simp add: grad_norm_def)

lemma grad_norm_345: "grad_norm [Some [3, 4], Some [0]] = 5"
proof -
  have "sqrt 25 = 5" by (rule real_sqrt_unique) simp_all
  then show ?thesis by (simp add: grad_norm_def)
qed

lemma ex_encode:
  "no_grad (encode_latents ex_ext (video ex_batch)) s =
     Inr (\<lparr>shape = [1, 2, 1, 1, 1], vals = [3643 / 10000, 3643 / 10000]\<rparr>,
          emit [VaeEncode \<lparr>shape = [2, 1, 1, 1], vals = [10, 20]\<rparr> False] s)"
  unfolding no_grad_def encode_latents_def
  by (simp add: ex_batch_def ex_ext_def merge_frames_def split_frames_def mul_scalar_def
      emit_def Let_def eval_nat_numeral)

lemma ex_training_step:
  "training_step ex_ext ex_batch (ex_state\<lparr>lr_scheduler := sch\<rparr>) =
     Inr (\<lparr>loss_value = 1 / 2, loss_grad = [Some [3, 4], Some [0]]\<rparr>,
          ex_state\<lparr>lr_scheduler := sch,
            trace := [Log (ModelParameters 3), UpdateEma 0,
             VaeEncode \<lparr>shape = [2, 1, 1, 1], vals = [10, 20]\<rparr> False,
             TrainingLosses \<lparr>shape = [1, 2, 1, 1, 1], vals = [3643 / 10000, 3643 / 10000]\<rparr> [3] None,
             ClipGradNorm 1 False,
             LogMetric ''train_loss'' (1 / 2),
             LogMetric ''gradient_norm'' 0]\<rparr>)"
  unfolding training_step_def ex_encode
  by (simp add: ex_ext_def ex_state_def ex_args_def emit_def Let_def mean_def
      clip_grad_norm_def grad_norm_none)

lemma ex_training_step_late:
  "training_step ex_ext ex_batch (ex_state_late\<lparr>args := ex_args\<lparr>clip_max_norm := mx\<rparr>\<rparr>) =
     Inr (\<lparr>loss_value = 1 / 2, loss_grad = [Some [3, 4], Some [0]]\<rparr>,
          ex_state_late\<lparr>args := ex_args\<lparr>clip_max_norm := mx\<rparr>,
            grads := (if 5 > mx then [Some [3 * (mx / 5), 4 * (mx / 5)], Some [0]]
                      else [Some [3, 4], Some [0]]),
            trace := [
             VaeEncode \<lparr>shape = [2, 1, 1, 1], vals = [10, 20]\<rparr> False,
             TrainingLosses \<lparr>shape = [1, 2, 1, 1, 1], vals = [3643 / 10000, 3643 / 10000]\<rparr> [3] None,
             ClipGradNorm mx True,
             LogMetric ''train_loss'' (1 / 2),
             LogMetric ''gradient_norm'' 5]\<rparr>)"
  unfolding training_step_def ex_encode
  by (simp add: ex_ext_def ex_state_late_def ex_state_def ex_args_def emit_def Let_def mean_def
      clip_grad_norm_def grad_norm_345)

lemma ex_run_batch:
  "run_batch ex_ext (main_trainer ex_args) 0 ex_batch (ex_state\<lparr>lr_scheduler := sch\<rparr>) =
     Inr (ex_state\<lparr>lr_scheduler := sch,
            model := [(''a'', \<lparr>shape = [2], vals = [- 2, - 2]\<rparr>), (''b'', \<lparr>shape = [1], vals = [3]\<rparr>)],
            ema := [(''a'', \<lparr>shape = [2], vals = [- 1 / 2, 0]\<rparr>), (''b'', \<lparr>shape = [1], vals = [3]\<rparr>)],
            grads := [Some [3, 4], Some [0]],
            global_step := 1,
            trace := [Log (ModelParameters 3), UpdateEma 0,
             VaeEncode \<lparr>shape = [2, 1, 1, 1], vals = [10, 20]\<rparr> False,
             TrainingLosses \<lparr>shape = [1, 2, 1, 1, 1], vals = [3643 / 10000, 3643 / 10000]\<rparr> [3] None,
             ClipGradNorm 1 False,
             LogMetric ''train_loss'' (1 / 2),
             LogMetric ''gradient_norm'' 0,
             ZeroGrad, Backward, OptimizerStep, UpdateEma (1 / 2)]\<rparr>)"
  unfolding run_batch_def ex_training_step
  by (simp add: main_trainer_def zero_grad_def backward_def step_optimizer_def
      on_train_batch_end_def update_ema_def emit_def Let_def ex_state_def ex_ext_def
      ex_model_def dict_contains_def same_shape_def ema_tensor_def)

lemma ex_fit:
  "fit ex_ext (main_trainer ex_args) [ex_batch] ex_state =
     Inr (ex_state\<lparr>lr_scheduler := Some get_constant_schedule,
            model := [(''a'', \<lparr>shape = [2], vals = [- 2, - 2]\<rparr>), (''b'', \<lparr>shape = [1], vals = [3]\<rparr>)],
            ema := [(''a'', \<lparr>shape = [2], vals = [- 1 / 2, 0]\<rparr>), (''b'', \<lparr>shape = [1], vals = [3]\<rparr>)],
            grads := [Some [3, 4], Some [0]],
            global_step := 1,
            trace := [Log (ModelParameters 3), UpdateEma 0,
             VaeEncode \<lparr>shape = [2, 1, 1, 1], vals = [10, 20]\<rparr> False,
             TrainingLosses \<lparr>shape = [1, 2, 1, 1, 1], vals = [3643 / 10000, 3643 / 10000]\<rparr> [3] None,
             ClipGradNorm 1 False,
             LogMetric ''train_loss'' (1 / 2),
             LogMetric ''gradient_norm'' 0,
             ZeroGrad, Backward, OptimizerStep, UpdateEma (1 / 2)]\<rparr>)"
proof -
  have c: "configure_optimizers ex_state = ex_state\<lparr>lr_scheduler := Some get_constant_schedule\<rparr>"
    by (simp add: configure_optimizers_def get_scheduler_def)
  have g: "max_steps (main_trainer ex_args) = 1000" "global_step ex_state = 0"
    by (simp_all add: main_trainer_def ex_args_def ex_state_def)
  show ?thesis
    unfolding fit_def c by (simp add: g ex_run_batch)
qed

text \<open>
  The rate after \<^verbatim>\<open>configure_optimizers\<close> is the optimizer's base rate at every step,
  for every configuration.
\<close>

lemma lr_always_base: "current_lr (configure_optimizers s) n = lr (opt s)"
  by (simp add: current_lr_def configure_optimizers_def get_scheduler_def
      get_constant_schedule_def)

text \<open>
  Claim C1 does not hold of the code. The first batch of a run, from the module as
  constructed: the governor is called inside \<^verbatim>\<open>training_step\<close>, before the loss is
  handed back and so before \<^verbatim>\<open>zero_grad\<close> and \<^verbatim>\<open>backward\<close>. It finds no gradient
  and logs the norm 0, while the gradient that \<^verbatim>\<open>backward\<close> then produces, and the
  optimizer step consumes, has norm 5.
\<close>

theorem governor_runs_before_backward:
  "map_sum id (\<lambda>s. drop 2 (trace s)) (fit ex_ext (main_trainer ex_args) [ex_batch] ex_state) =
     Inr [VaeEncode \<lparr>shape = [2, 1, 1, 1], vals = [10, 20]\<rparr> False,
          TrainingLosses \<lparr>shape = [1, 2, 1, 1, 1], vals = [3643 / 10000, 3643 / 10000]\<rparr> [3] None,
          ClipGradNorm 1 False,
          LogMetric ''train_loss'' (1 / 2),
          LogMetric ''gradient_norm'' 0,
          ZeroGrad, Backward, OptimizerStep, UpdateEma (1 / 2)]
   \<and> map_sum id grads (fit ex_ext (main_trainer ex_args) [ex_batch] ex_state) =
       Inr [Some [3, 4], Some [0]]
   \<and> grad_norm [Some [3, 4], Some [0]] = 5"
  by (simp add: ex_fit grad_norm_345)

text \<open>
  Claim C3 does not hold of the code. With 10 warm-up steps configured, the scheduler that
  \<^verbatim>\<open>configure_optimizers\<close> installs gives the rate \<open>1e-4\<close> at the steps 0, 5, 10 and
  1000: the policy it names, \<^verbatim>\<open>"constant"\<close>, has no warm-up. The policy
  \<^verbatim>\<open>"constant_with_warmup"\<close> with the same step counts gives 0, \<open>5e-5\<close>, \<open>1e-4\<close> and
  \<open>1e-4\<close>.
\<close>

theorem lr_constant_from_step_zero:
  "lr_warmup_steps ex_args = 10 \<and> gradient_accumulation_steps ex_args = 1
   \<and> map (current_lr (configure_optimizers ex_state)) [0, 5, 10, 1000] =
       [1 / 10000, 1 / 10000, 1 / 10000, 1 / 10000]
   \<and> map (current_lr (ex_state\<lparr>lr_scheduler := get_scheduler ''constant_with_warmup'' 10 1000\<rparr>))
        [0, 5, 10, 1000] = [0, 1 / 20000, 1 / 10000, 1 / 10000]"
  by (simp add: lr_always_base)
     (simp add: ex_args_def ex_state_def current_lr_def get_scheduler_def
        get_constant_schedule_with_warmup_def)

theorem clipping_threshold_witness:
  "(\<exists>loss s'. training_step ex_ext ex_batch ex_state = Inr (loss, s')
      \<and> global_step ex_state < start_clip_iter (args ex_state)
      \<and> [(m, e). ClipGradNorm m e \<leftarrow> drop (length (trace ex_state)) (trace s')] = [(1, False)]
      \<and> [v. LogMetric k v \<leftarrow> drop (length (trace ex_state)) (trace s'), k = ''gradient_norm''] = [0]
      \<and> grads s' = [None, None])
   \<and> (\<exists>loss s'. training_step ex_ext ex_batch ex_state_late = Inr (loss, s')
      \<and> start_clip_iter (args ex_state_late) \<le> global_step ex_state_late
      \<and> clip_max_norm (args ex_state_late) < grad_norm (grads ex_state_late)
      \<and> [(m, e). ClipGradNorm m e \<leftarrow> drop (length (trace ex_state_late)) (trace s')] = [(1, True)]
      \<and> [v. LogMetric k v \<leftarrow> drop (length (trace ex_state_late)) (trace s'), k = ''gradient_norm''] = [5]
      \<and> grads s' = [Some [3 / 5, 4 / 5], Some [0]])
   \<and> (\<exists>loss s'. training_step ex_ext ex_batch
                   (ex_state_late\<lparr>args := ex_args\<lparr>clip_max_norm := 10\<rparr>\<rparr>) = Inr (loss, s')
      \<and> grad_norm (grads ex_state_late) \<le> 10
      \<and> grads s' = [Some [3, 4], Some [0]])"
proof -
  have e0: "ex_state\<lparr>lr_scheduler := None\<rparr> = ex_state" by (simp add: ex_state_def)
  from ex_training_step[of None] obtain loss s1 where
    t1: "training_step ex_ext ex_batch ex_state = Inr (loss, s1)" unfolding e0 by blast
  have f1: "global_step ex_state < start_clip_iter (args ex_state)"
    "clip_max_norm (args ex_state) = 1" "grads ex_state = [None, None]"
    by (simp_all add: ex_state_def ex_args_def)
  from clipping_threshold[OF t1] f1
  have c1: "[(m, e). ClipGradNorm m e \<leftarrow> drop (length (trace ex_state)) (trace s1)] = [(1, False)]
      \<and> [v. LogMetric k v \<leftarrow> drop (length (trace ex_state)) (trace s1), k = ''gradient_norm''] = [0]
      \<and> grads s1 = [None, None]"
    by (simp add: grad_norm_none clip_grad_norm_def)
  have e1: "ex_state_late\<lparr>args := ex_args\<lparr>clip_max_norm := 1\<rparr>\<rparr> = ex_state_late"
    by (simp add: ex_state_late_def ex_state_def ex_args_def)
  from ex_training_step_late[of 1] obtain loss2 s2 where
    t2: "training_step ex_ext ex_batch ex_state_late = Inr (loss2, s2)" unfolding e1 by blast
  have f2: "start_clip_iter (args ex_state_late) \<le> global_step ex_state_late"
    "clip_max_norm (args ex_state_late) = 1" "grads ex_state_late = [Some [3, 4], Some [0]]"
    by (simp_all add: ex_state_late_def ex_state_def ex_args_def)
  have f3: "clip_max_norm (args ex_state_late) < grad_norm (grads ex_state_late)"
    by (simp add: f2 grad_norm_345)
  from clipping_threshold[OF t2] f2 f3
  have c2: "[(m, e). ClipGradNorm m e \<leftarrow> drop (length (trace ex_state_late)) (trace s2)] = [(1, True)]
      \<and> [v. LogMetric k v \<leftarrow> drop (length (trace ex_state_late)) (trace s2), k = ''gradient_norm''] = [5]
      \<and> grads s2 = [Some [3 / 5, 4 / 5], Some [0]]"
    by (simp add: grad_norm_345 clip_grad_norm_def)
  let ?s3 = "ex_state_late\<lparr>args := ex_args\<lparr>clip_max_norm := 10\<rparr>\<rparr>"
  from ex_training_step_late[of 10] obtain loss3 s3 where
    t3: "training_step ex_ext ex_batch ?s3 = Inr (loss3, s3)" by blast
  have f4: "start_clip_iter (args ?s3) \<le> global_step ?s3"
    "clip_max_norm (args ?s3) = 10" "grads ?s3 = [Some [3, 4], Some [0]]"
    "grads ex_state_late = [Some [3, 4], Some [0]]"
    by (simp_all add: ex_state_late_def ex_state_def ex_args_def)
  have f5: "grad_norm (grads ex_state_late) \<le> 10" by (simp add: f4 grad_norm_345)
  from clipping_threshold[OF t3] f4 f5
  have c3: "grads s3 = [Some [3, 4], Some [0]]"
    by (simp add: grad_norm_345 clip_grad_norm_def)
  from t1 f1(1) c1 t2 f2(1) f3 c2 t3 f5 c3 show ?thesis by blast
qed

theorem ema_once_per_optimizer_step_witness:
  "\<exists>s' new. fit ex_ext (main_trainer ex_args) [ex_batch] ex_state = Inr s'
     \<and> trace s' = trace ex_state @ new
     \<and> filter step_or_ema new = [OptimizerStep, UpdateEma (1 / 2)]
     \<and> global_step s' = 1"
proof -
  from ex_fit obtain s' where f: "fit ex_ext (main_trainer ex_args) [ex_batch] ex_state = Inr s'"
    and g: "global_step s' = 1" by simp
  from ema_once_per_optimizer_step[OF f] obtain new n where
    t: "trace s' = trace ex_state @ new"
    and fl: "filter step_or_ema new =
               concat (replicate n [OptimizerStep, UpdateEma (ema_decay ex_ext)])"
    and gs: "global_step s' = global_step ex_state + int n" by blast
  have "global_step ex_state = 0" by (simp add: ex_state_def)
  with g gs have "n = 1" by simp
  with fl have "filter step_or_ema new = [OptimizerStep, UpdateEma (1 / 2)]"
    by (simp add: ex_ext_def)
  with f t g show ?thesis by blast
qed

theorem encoder_no_grad_scaled_witness:
  "\<exists>loss s' x t y rest. training_step ex_ext ex_batch ex_state = Inr (loss, s')
     \<and> trace s' = trace ex_state
          @ [VaeEncode \<lparr>shape = [2, 1, 1, 1], vals = [10, 20]\<rparr> False, TrainingLosses x t y] @ rest
     \<and> vals x = [3643 / 10000, 3643 / 10000]
     \<and> grad_enabled s' = True"
proof -
  have e0: "ex_state\<lparr>lr_scheduler := None\<rparr> = ex_state" by (simp add: ex_state_def)
  from ex_training_step[of None] obtain loss s1 where
    t1: "training_step ex_ext ex_batch ex_state = Inr (loss, s1)" unfolding e0 by blast
  from encoder_no_grad_scaled[OF t1] obtain b x1 x t y rest where
    m: "merge_frames (video ex_batch) = Inr x1"
    and sp: "split_frames b (mul_scalar (18215 / 100000) (vae_encode ex_ext x1)) = Inr x"
    and v: "vals x = map (\<lambda>v. v * (18215 / 100000)) (vals (vae_encode ex_ext x1))"
    and tr: "trace s1 = trace ex_state @ [VaeEncode x1 False, TrainingLosses x t y] @ rest"
    and g: "grad_enabled s1 = grad_enabled ex_state"
    by blast
  from m have x1: "x1 = \<lparr>shape = [2, 1, 1, 1], vals = [10, 20]\<rparr>"
    by (simp add: merge_frames_def ex_batch_def)
  from v have "vals x = [3643 / 10000, 3643 / 10000]"
    by (simp add: x1 ex_ext_def eval_nat_numeral)
  moreover from g have "grad_enabled s1 = True" by (simp add: ex_state_def)
  ultimately show ?thesis using t1 tr unfolding x1 by blast
qed

end
